theory Spec2Isabelle
  imports Main
begin

section \<open>C strings and the C library functions the daemon uses\<close>

text \<open>
  A C string is modelled by the list of its bytes before the terminating NUL. A pointer
  that may be NULL is an \<open>option\<close>. Memory allocation is taken to succeed. A read or
  write outside a buffer and a dereference of NULL are undefined in C; the model makes
  them an error value.
\<close>

datatype error =
    Out_of_bounds  \<comment> \<open>access to \<open>str[-1]\<close>, one byte before the buffer\<close>
  | Null_deref     \<comment> \<open>a NULL pointer handed to a string function\<close>

definition tolower :: "char \<Rightarrow> char" where
  "tolower c =
     (if (65::nat) \<le> of_char c \<and> of_char c \<le> (90::nat)
      then char_of (of_char c + (32::nat)) else c)"

text \<open>\<open>strcasecmp\<close>: only the sign of the result is specified; the model returns -1, 0 or 1.\<close>

fun strcasecmp :: "string \<Rightarrow> string \<Rightarrow> int" where
  "strcasecmp [] [] = 0"
| "strcasecmp [] (b # bs) = -1"
| "strcasecmp (a # as) [] = 1"
| "strcasecmp (a # as) (b # bs) =
     (if tolower a = tolower b then strcasecmp as bs
      else if (of_char (tolower a) :: nat) < of_char (tolower b) then -1 else 1)"

definition strncasecmp :: "string \<Rightarrow> string \<Rightarrow> nat \<Rightarrow> int" where
  "strncasecmp a b n = strcasecmp (take n a) (take n b)"

text \<open>\<open>strcasestr h n \<noteq> NULL\<close>: the needle occurs in the haystack, letter case ignored.\<close>

fun strcasestr :: "string \<Rightarrow> string \<Rightarrow> bool" where
  "strcasestr [] n = (n = [])"
| "strcasestr (c # cs) n =
     (strncasecmp (c # cs) n (length n) = 0 \<and> length n \<le> length (c # cs) \<or> strcasestr cs n)"

text \<open>\<open>strchr s ':'\<close>: the suffix of \<open>s\<close> from its first colon, NULL when there is none.\<close>

fun strchr :: "string \<Rightarrow> char \<Rightarrow> string option" where
  "strchr [] c = None"
| "strchr (x # xs) c = (if x = c then Some (x # xs) else strchr xs c)"

section \<open>The sanitizer \<open>remove_bad_chars\<close>\<close>

text \<open>The test of the \<open>for\<close> loop's first branch: the characters that are kept.\<close>

definition allowed_char :: "int \<Rightarrow> char \<Rightarrow> bool" where
  "allowed_char mode c =
     (let n = (of_char c :: nat) in
      (65 \<le> n \<and> n \<le> 90) \<or> (97 \<le> n \<and> n \<le> 122) \<or> (48 \<le> n \<and> n \<le> 57) \<or>
      c = CHR ''_'' \<or>
      (mode = 1 \<and> (c = CHR ''/'' \<or> c = CHR ''.'' \<or> c = CHR '','')))"

text \<open>
  The \<open>for\<close> loop works in place on the copy \<open>str\<close>, reading at \<open>i\<close> and writing at
  \<open>j\<close>. The length of the buffer's string does not change while it runs, since no NUL
  is written. In the branch \<open>havedash == 1\<close> the source decrements \<open>j\<close> and the loop
  header increments it again, so \<open>j\<close> is passed on unchanged.
  The result is \<open>j\<close> and the buffer at the loop's exit.
\<close>

function rbc_for :: "int \<Rightarrow> nat \<Rightarrow> nat \<Rightarrow> bool \<Rightarrow> string \<Rightarrow> nat \<times> string" where
  "rbc_for mode i j havedash str =
     (if i < length str then
        (if allowed_char mode (str ! i)
         then rbc_for mode (i + 1) (j + 1) False (str[j := str ! i])
         else if havedash
         then rbc_for mode (i + 1) j True str
         else rbc_for mode (i + 1) (j + 1) True (str[j := CHR ''-'']))
      else (j, str))"
  by pat_completeness auto
termination
  by (relation "measure (\<lambda>(mode, i, j, havedash, str). length str - i)") auto

text \<open>
  \<open>while (str[strlen(str)-1] == '-') str[strlen(str)-1] = '\0';\<close>
  When the string has become empty, \<open>strlen(str)-1\<close> is \<open>-1\<close> and the loop condition
  reads the byte before the buffer.
\<close>

function cut_trailing :: "string \<Rightarrow> error + string" where
  "cut_trailing str =
     (if str = [] then Inl Out_of_bounds
      else if last str = CHR ''-'' then cut_trailing (butlast str)
      else Inr str)"
  by pat_completeness auto
termination
  by (relation "measure length") auto

text \<open>\<open>i = 0; while (str[i] == '-') ++i;\<close> followed by the \<open>memmove\<close> to the front.\<close>

definition cut_leading :: "string \<Rightarrow> string" where
  "cut_leading str = dropWhile (\<lambda>c. c = CHR ''-'') str"

definition remove_bad_chars :: "string option \<Rightarrow> int \<Rightarrow> error + string option" where
  "remove_bad_chars str_orig mode =
     (case str_orig of
        None \<Rightarrow> Inr None
      | Some str \<Rightarrow>
          if length str < 1 then Inr (Some str)
          else
            (case rbc_for mode 0 0 False str of
               (j, buf) \<Rightarrow>
                 (case cut_trailing (take j buf) of
                    Inl e \<Rightarrow> Inl e
                  | Inr s \<Rightarrow> Inr (Some (cut_leading s)))))"

section \<open>The printer registry\<close>

text \<open>The timeout values, in seconds.\<close>

definition TIMEOUT_IMMEDIATELY :: int where "TIMEOUT_IMMEDIATELY = -1"
definition TIMEOUT_CONFIRM :: int where "TIMEOUT_CONFIRM = 10"
definition TIMEOUT_RETRY :: int where "TIMEOUT_RETRY = 10"
definition TIMEOUT_REMOVE :: int where "TIMEOUT_REMOVE = -1"

datatype printer_status =
    STATUS_UNCONFIRMED
  | STATUS_CONFIRMED
  | STATUS_TO_BE_CREATED
  | STATUS_BROWSE_PACKET_RECEIVED
  | STATUS_DISAPPEARED

text \<open>
  \<open>remote_printer_t\<close>. \<open>time_t\<close> is a signed 64-bit count of seconds, modelled by
  \<open>int\<close>; the sentinel \<open>(time_t) -1\<close> (no pending action) is \<open>-1\<close>. The flag
  \<open>duplicate\<close> only ever holds 0 or 1. The three pointers \<open>ppd\<close>, \<open>model\<close> and
  \<open>ifscript\<close> may be NULL.
\<close>

record remote_printer =
  name :: string
  uri :: string
  ppd :: "string option"
  model :: "string option"
  ifscript :: "string option"
  status :: printer_status
  timeout :: int
  duplicate :: bool
  host :: string
  service_name :: string
  type :: string
  domain :: string

text \<open>
  \<open>remote_printers\<close> is a CUPS array created with \<open>compare_remote_printers\<close>, which
  is \<open>strcasecmp\<close> on the names. libcups keeps such an array sorted and adds an element
  that compares equal to existing ones after them. The registry is the list of the
  array's elements in the order \<open>cupsArrayFirst\<close>/\<open>cupsArrayNext\<close> visit them.
\<close>

definition compare_remote_printers :: "remote_printer \<Rightarrow> remote_printer \<Rightarrow> int" where
  "compare_remote_printers a b = strcasecmp (name a) (name b)"

fun cupsArrayAdd :: "remote_printer list \<Rightarrow> remote_printer \<Rightarrow> remote_printer list" where
  "cupsArrayAdd [] e = [e]"
| "cupsArrayAdd (x # xs) e =
     (if compare_remote_printers e x < 0 then e # x # xs else x # cupsArrayAdd xs e)"

text \<open>
  A loop \<open>for (p = cupsArrayFirst(a); p; p = cupsArrayNext(a)) if (P p) break;\<close>
  leaves \<open>p\<close> at the first element that satisfies \<open>P\<close>, or NULL. The model returns
  the element's index.
\<close>

fun find_first :: "('a \<Rightarrow> bool) \<Rightarrow> 'a list \<Rightarrow> nat option" where
  "find_first P [] = None"
| "find_first P (x # xs) =
     (if P x then Some 0 else map_option Suc (find_first P xs))"

section \<open>The local spooler, as the scheduler sees it\<close>

text \<open>
  The spooler is an external collaborator. Its answers are functions the model is
  given: whether the connection can be opened, the result of \<open>cupsGetJobs2\<close> for a
  queue (negative on error), the name found in the answer to \<open>CUPS_GET_DEFAULT\<close> (NULL
  when the request fails or names no printer), whether \<open>CUPS_DELETE_PRINTER\<close> and
  \<open>CUPS_ADD_MODIFY_PRINTER\<close> succeed for a queue, and the file \<open>cupsGetServerPPD\<close>
  returns. Its state is the list of queue names it holds and the log of the requests
  sent so far.
\<close>

datatype spooler_call =
    Get_Jobs string
  | Get_Default
  | Delete_Printer string
  | Get_Server_PPD string
  | Add_Modify_Printer string string "string option"

record spooler =
  connect_ok :: bool
  active_jobs :: "string \<Rightarrow> int"
  default_printer :: "string option"
  delete_ok :: "string \<Rightarrow> bool"
  add_ok :: "string \<Rightarrow> bool"
  server_ppd :: "string \<Rightarrow> string option"
  queues :: "string list"
  calls :: "spooler_call list"

definition queue_exists :: "spooler \<Rightarrow> string \<Rightarrow> bool" where
  "queue_exists sp n = list_ex (\<lambda>q. strcasecmp q n = 0) (queues sp)"

definition send :: "spooler_call \<Rightarrow> spooler \<Rightarrow> spooler" where
  "send c sp = sp\<lparr>calls := calls sp @ [c]\<rparr>"

definition delete_printer :: "string \<Rightarrow> spooler \<Rightarrow> spooler" where
  "delete_printer n sp =
     (let sp1 = send (Delete_Printer n) sp in
      if delete_ok sp n
      then sp1\<lparr>queues := filter (\<lambda>q. strcasecmp q n \<noteq> 0) (queues sp1)\<rparr>
      else sp1)"

definition add_modify_printer :: "string \<Rightarrow> string \<Rightarrow> string option \<Rightarrow> spooler \<Rightarrow> spooler" where
  "add_modify_printer n u file sp =
     (let sp1 = send (Add_Modify_Printer n u file) sp in
      if add_ok sp n \<and> \<not> queue_exists sp n
      then sp1\<lparr>queues := queues sp1 @ [n]\<rparr>
      else sp1)"

text \<open>The daemon's settings that the modelled functions read.\<close>

record config =
  BrowseTimeout :: nat
  CreateIPPPrinterQueues :: nat

section \<open>The reconciliation pass \<open>handle_cups_queues\<close>\<close>

text \<open>
  The test \<open>default_printer_name && !strcasecmp(default_printer_name, p->name)\<close>.
\<close>

definition is_default :: "spooler \<Rightarrow> string \<Rightarrow> bool" where
  "is_default sp n =
     (case default_printer sp of None \<Rightarrow> False | Some d \<Rightarrow> strcasecmp d n = 0)"

text \<open>
  The body of \<open>case STATUS_DISAPPEARED\<close>. The result is the entry as the pass leaves
  it, \<open>None\<close> when the entry is removed from the array and freed, and the spooler.
  The bookkeeping of the auto-shutdown timer, which reads only the number of entries,
  is left out.
\<close>

definition case_disappeared ::
  "int \<Rightarrow> remote_printer \<Rightarrow> spooler \<Rightarrow> remote_printer option \<times> spooler" where
  "case_disappeared current_time p sp =
     (if timeout p > current_time then (Some p, sp)
      else if \<not> duplicate p then
        (if \<not> connect_ok sp
         then (Some (p\<lparr>timeout := current_time + TIMEOUT_RETRY\<rparr>), sp)
         else
           let sp1 = send (Get_Jobs (name p)) sp in
           if active_jobs sp (name p) \<noteq> 0
           then (Some (p\<lparr>timeout := current_time + TIMEOUT_RETRY\<rparr>), sp1)
           else
             let sp2 = send Get_Default sp1 in
             if is_default sp (name p)
             then (Some (p\<lparr>timeout := current_time + TIMEOUT_RETRY\<rparr>), sp2)
             else
               let sp3 = delete_printer (name p) sp2 in
               if \<not> delete_ok sp (name p)
               then (Some (p\<lparr>timeout := current_time + TIMEOUT_RETRY\<rparr>), sp3)
               else (None, sp3))
      else (None, sp))"

text \<open>
  The body of \<open>case STATUS_TO_BE_CREATED\<close> and \<open>case STATUS_BROWSE_PACKET_RECEIVED\<close>.
  \<open>lease_now\<close> is the value of the second \<open>time(NULL)\<close> call, made after the queue
  was created. With a driver model reference the PPD is first fetched from the spooler;
  the request is sent with the PPD, else with the interface script, else as it is, and
  the file handed over is forgotten afterwards (a PPD only when it was fetched).
\<close>

definition case_to_be_created ::
  "config \<Rightarrow> int \<Rightarrow> int \<Rightarrow> remote_printer \<Rightarrow> spooler \<Rightarrow> remote_printer option \<times> spooler" where
  "case_to_be_created cfg current_time lease_now p sp =
     (if duplicate p then (Some (p\<lparr>timeout := -1\<rparr>), sp)
      else if timeout p > current_time then (Some p, sp)
      else if \<not> connect_ok sp
      then (Some (p\<lparr>timeout := current_time + TIMEOUT_RETRY\<rparr>), sp)
      else
        let p1 = (case model p of None \<Rightarrow> p | Some m \<Rightarrow> p\<lparr>ppd := server_ppd sp m\<rparr>);
            sp0 = (case model p of None \<Rightarrow> sp | Some m \<Rightarrow> send (Get_Server_PPD m) sp);
            file = (case ppd p1 of Some f \<Rightarrow> Some f | None \<Rightarrow> ifscript p1);
            p2 = (case ppd p1 of
                    Some f \<Rightarrow> (if model p1 \<noteq> None then p1\<lparr>ppd := None\<rparr> else p1)
                  | None \<Rightarrow> p1\<lparr>ifscript := None\<rparr>);
            sp1 = add_modify_printer (name p) (uri p) file sp0
        in
          if \<not> add_ok sp (name p)
          then (Some (p2\<lparr>timeout := current_time + TIMEOUT_RETRY\<rparr>), sp1)
          else if status p = STATUS_BROWSE_PACKET_RECEIVED
          then (Some (p2\<lparr>status := STATUS_DISAPPEARED,
                          timeout := lease_now + int (BrowseTimeout cfg)\<rparr>), sp1)
          else (Some (p2\<lparr>status := STATUS_CONFIRMED, timeout := -1\<rparr>), sp1))"

text \<open>
  The \<open>switch (p->status)\<close> for one entry. \<open>case STATUS_UNCONFIRMED\<close> falls through
  into \<open>case STATUS_DISAPPEARED\<close> once the timeout has passed.
\<close>

definition handle_printer ::
  "config \<Rightarrow> int \<Rightarrow> int \<Rightarrow> remote_printer \<Rightarrow> spooler \<Rightarrow> remote_printer option \<times> spooler" where
  "handle_printer cfg current_time lease_now p sp =
     (case status p of
        STATUS_UNCONFIRMED \<Rightarrow>
          if timeout p > current_time then (Some p, sp)
          else case_disappeared current_time
                 (p\<lparr>status := STATUS_DISAPPEARED,
                    timeout := current_time + TIMEOUT_IMMEDIATELY\<rparr>) sp
      | STATUS_DISAPPEARED \<Rightarrow> case_disappeared current_time p sp
      | STATUS_TO_BE_CREATED \<Rightarrow> case_to_be_created cfg current_time lease_now p sp
      | STATUS_BROWSE_PACKET_RECEIVED \<Rightarrow> case_to_be_created cfg current_time lease_now p sp
      | STATUS_CONFIRMED \<Rightarrow> (Some p, sp))"

text \<open>
  The \<open>for\<close> loop over the array. \<open>cupsArrayRemove\<close> inside the loop takes out the
  current element and the iteration goes on with the next one. One value \<open>lease_now\<close>
  stands for the clock readings of all entries of a pass.
\<close>

fun scan_printers ::
  "config \<Rightarrow> int \<Rightarrow> int \<Rightarrow> remote_printer list \<Rightarrow> spooler \<Rightarrow> remote_printer list \<times> spooler" where
  "scan_printers cfg current_time lease_now [] sp = ([], sp)"
| "scan_printers cfg current_time lease_now (p # ps) sp =
     (case handle_printer cfg current_time lease_now p sp of
        (r, sp1) \<Rightarrow>
          (case scan_printers cfg current_time lease_now ps sp1 of
             (rs, sp2) \<Rightarrow> ((case r of None \<Rightarrow> rs | Some p1 \<Rightarrow> p1 # rs), sp2)))"

section \<open>The single timer \<open>recheck_timer\<close>\<close>

text \<open>
  The daemon's state besides the spooler: the registry, whether \<open>gmainloop\<close> is
  non-NULL, and the timer. GLib is modelled by the list of its pending timeout sources
  for \<open>handle_cups_queues\<close>, each an id and an interval in seconds, and the id it
  hands out next. \<open>queues_timer_id\<close> is \<open>None\<close> for \<open>(guint) -1\<close>.
  \<open>g_timeout_add_seconds\<close> takes the interval as a \<open>guint\<close>, so the \<open>time_t\<close>
  value is reduced modulo \<open>2^32\<close>.
\<close>

record daemon =
  remote_printers :: "remote_printer list"
  gmainloop :: bool
  queues_timer_id :: "nat option"
  timer_sources :: "(nat \<times> nat) list"
  next_source_id :: nat

definition guint :: "int \<Rightarrow> nat" where
  "guint x = nat (x mod 4294967296)"

definition g_source_remove :: "nat \<Rightarrow> (nat \<times> nat) list \<Rightarrow> (nat \<times> nat) list" where
  "g_source_remove i srcs = filter (\<lambda>s. fst s \<noteq> i) srcs"

text \<open>The \<open>for\<close> loop of \<open>recheck_timer\<close>; the last argument is the variable \<open>timeout\<close>.\<close>

fun recheck_loop :: "int \<Rightarrow> remote_printer list \<Rightarrow> int \<Rightarrow> int" where
  "recheck_loop now [] t = t"
| "recheck_loop now (p # ps) t =
     (if timeout p = -1 then recheck_loop now ps t
      else if now > timeout p then 0
      else if t = -1 \<or> timeout p - now < t then recheck_loop now ps (timeout p - now)
      else recheck_loop now ps t)"

definition recheck_timer :: "daemon \<Rightarrow> int \<Rightarrow> daemon" where
  "recheck_timer st now =
     (if \<not> gmainloop st then st
      else
        let t = recheck_loop now (remote_printers st) (-1);
            st1 = (case queues_timer_id st of
                     None \<Rightarrow> st
                   | Some i \<Rightarrow> st\<lparr>timer_sources := g_source_remove i (timer_sources st)\<rparr>)
        in
          if t \<noteq> -1
          then st1\<lparr>queues_timer_id := Some (next_source_id st1),
                   timer_sources := timer_sources st1 @ [(next_source_id st1, guint t)],
                   next_source_id := next_source_id st1 + 1\<rparr>
          else st1\<lparr>queues_timer_id := None\<rparr>)"

text \<open>
  \<open>handle_cups_queues\<close>: the scan, then \<open>recheck_timer\<close>. \<open>current_time\<close> is read
  once before the scan, \<open>now\<close> by \<open>recheck_timer\<close> after it.
\<close>

definition handle_cups_queues ::
  "config \<Rightarrow> daemon \<Rightarrow> spooler \<Rightarrow> int \<Rightarrow> int \<Rightarrow> int \<Rightarrow> daemon \<times> spooler" where
  "handle_cups_queues cfg st sp current_time lease_now now =
     (case scan_printers cfg current_time lease_now (remote_printers st) sp of
        (reg, sp1) \<Rightarrow> (recheck_timer (st\<lparr>remote_printers := reg\<rparr>) now, sp1))"

text \<open>
  The end of \<open>main\<close>: every entry is set to \<open>STATUS_DISAPPEARED\<close> with the timeout
  \<open>time(NULL) + TIMEOUT_IMMEDIATELY\<close>, and \<open>handle_cups_queues\<close> runs once. \<open>t\<close> is
  the clock while the entries are marked. \<open>gmainloop\<close> is NULL by then: \<open>main\<close>
  sets it so when the main loop has ended, and it has never been set when \<open>main\<close>
  jumps to the cleanup before the loop was made.
\<close>

definition mark_disappeared :: "int \<Rightarrow> remote_printer \<Rightarrow> remote_printer" where
  "mark_disappeared t p = p\<lparr>status := STATUS_DISAPPEARED, timeout := t + TIMEOUT_IMMEDIATELY\<rparr>"

definition main_shutdown ::
  "config \<Rightarrow> daemon \<Rightarrow> spooler \<Rightarrow> int \<Rightarrow> int \<Rightarrow> int \<Rightarrow> int \<Rightarrow> daemon \<times> spooler" where
  "main_shutdown cfg st sp t current_time lease_now now =
     handle_cups_queues cfg
       (st\<lparr>remote_printers := map (mark_disappeared t) (remote_printers st),
          gmainloop := False\<rparr>)
       sp current_time lease_now now"

section \<open>The resolver: \<open>create_local_queue\<close> and \<open>generate_local_queue\<close>\<close>

text \<open>
  \<open>local_printer_t\<close> and the hash table \<open>local_printers\<close>, keyed by the queue name
  and compared with \<open>g_str_equal\<close> (exact equality). The table is a list of pairs
  with one pair per key.
\<close>

record local_printer =
  device_uri :: string
  cups_browsed_controlled :: bool

type_synonym local_printers = "(string \<times> local_printer) list"

text \<open>\<open>g_hash_table_find (local_printers, local_printer_has_uri, uri)\<close> is non-NULL.\<close>

definition local_printer_has_uri :: "local_printers \<Rightarrow> string \<Rightarrow> bool" where
  "local_printer_has_uri lps u = list_ex (\<lambda>e. device_uri (snd e) = u) lps"

text \<open>
  \<open>local_printer = g_hash_table_lookup (local_printers, n)\<close> followed by the test
  \<open>local_printer && !local_printer->cups_browsed_controlled\<close>.
\<close>

definition foreign_queue :: "local_printers \<Rightarrow> string \<Rightarrow> bool" where
  "foreign_queue lps n =
     (case map_of lps n of None \<Rightarrow> False | Some lp \<Rightarrow> \<not> cups_browsed_controlled lp)"

text \<open>
  What the resolver needs from outside the process: libcups' \<open>httpAssembleURIf\<close>
  (scheme, host, port, resource), and the outcome of each step of probing a network
  printer in \<open>create_local_queue\<close>: \<open>httpSeparateURI\<close> returns \<open>HTTP_URI_OK\<close>,
  \<open>httpConnect\<close> returns a connection, \<open>_ppdCreateFromIPP\<close> returns the name of the
  generated file or NULL, \<open>cupsTempFd\<close> gives a temporary file or fails, and \<open>write\<close>
  writes the whole script.
\<close>

record network =
  httpAssembleURI :: "string \<Rightarrow> string \<Rightarrow> nat \<Rightarrow> string \<Rightarrow> string"
  httpSeparateURI_ok :: "string \<Rightarrow> bool"
  httpConnect_ok :: "string \<Rightarrow> bool"
  ppdCreateFromIPP :: "string \<Rightarrow> string option"
  cupsTempFd :: "string option"
  write_ok :: "string \<Rightarrow> bool"

text \<open>The second test of the branch for network printers: the PDLs are not known.\<close>

definition pdl_unknown :: "string option \<Rightarrow> bool" where
  "pdl_unknown pdl =
     (case pdl of
        None \<Rightarrow> True
      | Some s \<Rightarrow>
          s = [] \<or>
          (\<not> strcasestr s ''application/postscript'' \<and>
           \<not> strcasestr s ''application/pdf'' \<and>
           \<not> strcasestr s ''image/pwg-raster'' \<and>
           \<not> strcasestr s ''application/vnd.hp-PCL'' \<and>
           \<not> strcasestr s ''application/vnd.hp-PCLXL''))"

text \<open>
  \<open>create_local_queue\<close>. The result is the new entry, or NULL, and the registry.
  \<open>make_model\<close> only goes into the text of the interface script. The auto-shutdown
  timer, which the function cancels, is left out.
\<close>

definition create_local_queue ::
  "config \<Rightarrow> network \<Rightarrow> remote_printer list \<Rightarrow> int \<Rightarrow>
   string \<Rightarrow> string \<Rightarrow> string \<Rightarrow> string \<Rightarrow> string \<Rightarrow> string \<Rightarrow>
   string option \<Rightarrow> string option \<Rightarrow> int \<Rightarrow>
   remote_printer option \<times> remote_printer list" where
  "create_local_queue cfg net reg now n u h info ty dmn pdl make_model is_cups_queue =
     (let p = \<lparr>name = n, uri = u, ppd = None, model = None, ifscript = None,
                status = STATUS_TO_BE_CREATED, timeout = now + TIMEOUT_IMMEDIATELY,
                duplicate = False, host = h, service_name = info, type = ty, domain = dmn\<rparr>
      in
        if is_cups_queue \<noteq> 0 then
          (case find_first (\<lambda>q. strcasecmp (name q) (name p) = 0) reg of
             None \<Rightarrow> (Some p, cupsArrayAdd reg p)
           | Some i \<Rightarrow>
               if status (reg ! i) \<noteq> STATUS_DISAPPEARED \<and> status (reg ! i) \<noteq> STATUS_UNCONFIRMED
               then (Some (p\<lparr>duplicate := True\<rparr>), cupsArrayAdd reg (p\<lparr>duplicate := True\<rparr>))
               else (Some p, cupsArrayAdd (reg[i := (reg ! i)\<lparr>duplicate := True\<rparr>]) p))
        else if CreateIPPPrinterQueues cfg = 0 then (None, reg)
        else if pdl_unknown pdl then (None, reg)
        else if \<not> httpSeparateURI_ok net u then (None, reg)
        else if \<not> httpConnect_ok net u then (None, reg)
        else
          (case ppdCreateFromIPP net u of
             Some buffer \<Rightarrow>
               (Some (p\<lparr>ppd := Some buffer\<rparr>), cupsArrayAdd reg (p\<lparr>ppd := Some buffer\<rparr>))
           | None \<Rightarrow>
               (case cupsTempFd net of
                  None \<Rightarrow> (None, reg)
                | Some tempfile \<Rightarrow>
                    if \<not> write_ok net tempfile then (None, reg)
                    else (Some (p\<lparr>ifscript := Some tempfile\<rparr>),
                          cupsArrayAdd reg (p\<lparr>ifscript := Some tempfile\<rparr>)))))"

text \<open>Sequencing of steps that may hit undefined behaviour.\<close>

definition bind_err :: "error + 'a \<Rightarrow> ('a \<Rightarrow> error + 'b) \<Rightarrow> error + 'b" where
  "bind_err m f = (case m of Inl e \<Rightarrow> Inl e | Inr x \<Rightarrow> f x)"

text \<open>A result of \<open>remove_bad_chars\<close> that the caller passes to \<open>strlen\<close> unchecked.\<close>

definition nonnull :: "error + string option \<Rightarrow> error + string" where
  "nonnull r =
     (case r of Inl e \<Rightarrow> Inl e | Inr None \<Rightarrow> Inl Null_deref | Inr (Some s) \<Rightarrow> Inr s)"

text \<open>
  The remote host name: \<open>remove_bad_chars(host, 1)\<close>, then a trailing \<open>.local\<close> or
  \<open>.local.\<close> is cut. \<open>hl\<close> is computed once, before the first cut; the second test
  reads the string as the first cut left it.
\<close>

definition cut_local :: "string \<Rightarrow> string" where
  "cut_local remote_host =
     (let hl = length remote_host;
          r1 = (if hl > 6 \<and> strcasecmp (drop (hl - 6) remote_host) ''.local'' = 0
                then take (hl - 6) remote_host else remote_host)
      in if hl > 7 \<and> strcasecmp (drop (hl - 7) r1) ''.local.'' = 0
         then take (hl - 7) r1 else r1)"

definition remote_host_of :: "string \<Rightarrow> error + string" where
  "remote_host_of h = bind_err (nonnull (remove_bad_chars (Some h) 1)) (\<lambda>r. Inr (cut_local r))"

text \<open>
  The TXT record of a resolved service, NULL for the legacy browse protocol: a list of
  entries, each a key and, when the entry has an \<open>=\<close>, a value.
  \<open>avahi_string_list_find\<close> compares keys without regard to case.
\<close>

type_synonym txt_record = "(string \<times> string option) list"

definition avahi_string_list_find :: "txt_record \<Rightarrow> string \<Rightarrow> (string \<times> string option) option" where
  "avahi_string_list_find txt k = find (\<lambda>e. strcasecmp (fst e) k = 0) txt"

text \<open>The test that makes a remote CUPS queue announced by DNS-SD a raw queue.\<close>

definition raw_queue :: "txt_record option \<Rightarrow> string \<Rightarrow> bool" where
  "raw_queue txt dmn =
     (case txt of
        None \<Rightarrow> dmn \<noteq> []
      | Some l \<Rightarrow>
          (case avahi_string_list_find l ''product'' of
             None \<Rightarrow> True
           | Some (k, None) \<Rightarrow> True
           | Some (k, Some v) \<Rightarrow>
               strcasecmp k ''product'' \<noteq> 0 \<or> v = [] \<or> hd v \<noteq> CHR ''('' \<or>
               last v \<noteq> CHR '')''))"

text \<open>
  The loop over the fields \<open>product\<close>, \<open>usb_MDL\<close>, \<open>ty\<close>: the queue name taken from
  the first field with a value of three characters or more; \<open>None\<close> when the name
  stays \<open>printer\<close>.
\<close>

fun model_name :: "txt_record \<Rightarrow> string list \<Rightarrow> error + string option" where
  "model_name txt [] = Inr None"
| "model_name txt (f # fs) =
     (case avahi_string_list_find txt f of
        Some (k, Some v) \<Rightarrow>
          if strcasecmp k f = 0 \<and> length v \<ge> 3
          then bind_err (nonnull (remove_bad_chars (Some v) 0)) (\<lambda>s. Inr (Some s))
          else model_name txt fs
      | _ \<Rightarrow> model_name txt fs)"

definition advertised_pdl :: "txt_record \<Rightarrow> error + string option" where
  "advertised_pdl txt =
     (case avahi_string_list_find txt ''pdl'' of
        Some (k, Some v) \<Rightarrow>
          if strcasecmp k ''pdl'' = 0 \<and> length v \<ge> 3
          then remove_bad_chars (Some v) 1
          else Inr None
      | _ \<Rightarrow> Inr None)"

text \<open>
  The first part of \<open>generate_local_queue\<close> sorts the announcement by its resource
  path: a remote CUPS queue that is raw and ignored, a remote CUPS queue with its queue
  name, or an IPP network printer with its queue name and PDL list.
\<close>

datatype discovered =
    Raw_CUPS_queue
  | CUPS_queue string
  | IPP_printer string "string option"

definition classify :: "string \<Rightarrow> string \<Rightarrow> txt_record option \<Rightarrow> error + discovered" where
  "classify resource dmn txt =
     (if strncasecmp resource ''printers/'' 9 = 0 then
        bind_err (nonnull (remove_bad_chars (Some (drop 9 resource)) 0))
          (\<lambda>remote_queue.
             if raw_queue txt dmn then Inr Raw_CUPS_queue else Inr (CUPS_queue remote_queue))
      else if strncasecmp resource ''classes/'' 8 = 0 then
        bind_err (nonnull (remove_bad_chars (Some (drop 8 resource)) 0))
          (\<lambda>remote_queue. Inr (CUPS_queue remote_queue))
      else
        (case txt of
           None \<Rightarrow> Inr (IPP_printer ''printer'' None)
         | Some l \<Rightarrow>
             bind_err (model_name l [''product'', ''usb_MDL'', ''ty''])
               (\<lambda>m. bind_err (advertised_pdl l)
                  (\<lambda>pdl. Inr (IPP_printer (case m of None \<Rightarrow> ''printer'' | Some s \<Rightarrow> s) pdl)))))"

text \<open>
  The choice of the local queue name: the remote queue's name, or \<open>name@host\<close> when a
  queue of that name exists that is not ours, or none when that one is taken as well.
  The choice is made only when \<open>create\<close> is set.
\<close>

definition local_queue_name_of ::
  "local_printers \<Rightarrow> bool \<Rightarrow> string \<Rightarrow> string \<Rightarrow> string option" where
  "local_queue_name_of lps create remote_queue remote_host =
     (let backup_queue_name = remote_queue @ ''@'' @ remote_host in
      if create \<and> foreign_queue lps remote_queue
      then (if foreign_queue lps backup_queue_name then None else Some backup_queue_name)
      else Some remote_queue)"

text \<open>The loop that looks for an entry already made for the discovered printer.\<close>

definition lookup_printer :: "remote_printer list \<Rightarrow> string \<Rightarrow> string \<Rightarrow> nat option" where
  "lookup_printer reg local_queue_name remote_host =
     find_first
       (\<lambda>p. strcasecmp (name p) local_queue_name = 0 \<and>
            (host p = [] \<or> status p = STATUS_UNCONFIRMED \<or> status p = STATUS_DISAPPEARED \<or>
             strcasecmp (host p) remote_host = 0))
       reg"

text \<open>
  The branch \<open>if (p)\<close>: upgrade to IPPS or change of URI, or confirmation; then the
  empty identity fields are filled in. \<open>name\<close>, \<open>type\<close> and \<open>domain\<close> are non-NULL
  at every call of \<open>generate_local_queue\<close>. Both \<open>strchr\<close> results are handed to
  \<open>strcasecmp\<close> on every path.
\<close>

definition fill_empty ::
  "remote_printer \<Rightarrow> string \<Rightarrow> string \<Rightarrow> string \<Rightarrow> string \<Rightarrow> remote_printer" where
  "fill_empty p remote_host n ty dmn =
     (let p1 = (if host p = [] then p\<lparr>host := remote_host\<rparr> else p);
          p2 = (if service_name p1 = [] then p1\<lparr>service_name := n\<rparr> else p1);
          p3 = (if type p2 = [] then p2\<lparr>type := ty\<rparr> else p2)
      in if domain p3 = [] then p3\<lparr>domain := dmn\<rparr> else p3)"

definition update_printer ::
  "remote_printer \<Rightarrow> int \<Rightarrow> string \<Rightarrow> string \<Rightarrow> string \<Rightarrow> string \<Rightarrow> string \<Rightarrow>
   error + remote_printer" where
  "update_printer p now u remote_host n ty dmn =
     (case (strchr (uri p) (CHR '':''), strchr u (CHR '':'')) of
        (Some a, Some b) \<Rightarrow>
          if (strcasestr ty ''_ipps'' \<and> strncasecmp (uri p) ''ipp:'' 4 = 0) \<or> strcasecmp a b \<noteq> 0
          then Inr (fill_empty
                 (p\<lparr>uri := u, status := STATUS_TO_BE_CREATED,
                    timeout := now + TIMEOUT_IMMEDIATELY, host := remote_host,
                    service_name := n, type := ty, domain := dmn\<rparr>) remote_host n ty dmn)
          else if status p = STATUS_UNCONFIRMED \<or> status p = STATUS_DISAPPEARED
          then Inr (fill_empty (p\<lparr>status := STATUS_CONFIRMED, timeout := -1\<rparr>)
                 remote_host n ty dmn)
          else Inr (fill_empty p remote_host n ty dmn)
      | _ \<Rightarrow> Inl Null_deref)"

text \<open>
  The values the first part leaves in \<open>remote_queue\<close>, \<open>pdl\<close> and
  \<open>is_cups_queue\<close>.
\<close>

fun remote_queue_of :: "discovered \<Rightarrow> string" where
  "remote_queue_of (CUPS_queue q) = q"
| "remote_queue_of (IPP_printer q pdl) = q"
| "remote_queue_of Raw_CUPS_queue = []"

fun pdl_of :: "discovered \<Rightarrow> string option" where
  "pdl_of (IPP_printer q pdl) = pdl"
| "pdl_of d = None"

fun is_cups_queue_of :: "discovered \<Rightarrow> int" where
  "is_cups_queue_of (IPP_printer q pdl) = 0"
| "is_cups_queue_of d = 1"

text \<open>
  \<open>generate_local_queue\<close>. \<open>lps\<close> is the table \<open>local_printers\<close> as
  \<open>update_local_printers\<close> leaves it. The result is the entry returned, or NULL, and
  the registry.
\<close>

definition generate_local_queue ::
  "config \<Rightarrow> network \<Rightarrow> local_printers \<Rightarrow> remote_printer list \<Rightarrow> int \<Rightarrow>
   string \<Rightarrow> nat \<Rightarrow> string \<Rightarrow> string \<Rightarrow> string \<Rightarrow> string \<Rightarrow> txt_record option \<Rightarrow>
   error + (remote_printer option \<times> remote_printer list)" where
  "generate_local_queue cfg net lps reg now h port resource n ty dmn txt =
     (let u = httpAssembleURI net (if strcasestr ty ''_ipps'' then ''ipps'' else ''ipp'')
                h port resource
      in
        bind_err (remote_host_of h) (\<lambda>remote_host.
        bind_err (classify resource dmn txt) (\<lambda>d.
          if d = Raw_CUPS_queue then Inr (None, reg)
          else
            (let create = (\<not> local_printer_has_uri lps u) in
             case local_queue_name_of lps create (remote_queue_of d) remote_host of
               None \<Rightarrow> Inr (None, reg)
             | Some local_queue_name \<Rightarrow>
                 (case lookup_printer reg local_queue_name remote_host of
                    Some i \<Rightarrow>
                      if \<not> create then Inr (Some (reg ! i), reg)
                      else bind_err (update_printer (reg ! i) now u remote_host n ty dmn)
                             (\<lambda>p1. Inr (Some p1, reg[i := p1]))
                  | None \<Rightarrow>
                      if \<not> create then Inr (None, reg)
                      else Inr (create_local_queue cfg net reg now local_queue_name u
                                  remote_host n ty dmn (pdl_of d) (Some (remote_queue_of d))
                                  (is_cups_queue_of d)))))))"

section \<open>The withdrawal of a service: \<open>browse_callback\<close>, \<open>AVAHI_BROWSER_REMOVE\<close>\<close>

text \<open>
  \<open>local_flag\<close> is \<open>flags & AVAHI_LOOKUP_RESULT_LOCAL\<close>. For each of \<open>ppd\<close>,
  \<open>model\<close> and \<open>ifscript\<close> the source frees \<open>p\<close>'s string and assigns a copy of
  \<open>q\<close>'s only when \<open>q\<close>'s pointer is non-NULL; otherwise \<open>p\<close>'s pointer keeps its
  old, freed, non-NULL value. When an entry is found, the function ends with
  \<open>recheck_timer\<close>.
\<close>

definition replace_pointer :: "string option \<Rightarrow> string option \<Rightarrow> string option" where
  "replace_pointer old new = (case new of Some s \<Rightarrow> Some s | None \<Rightarrow> old)"

definition browse_callback_remove ::
  "remote_printer list \<Rightarrow> int \<Rightarrow> bool \<Rightarrow> string \<Rightarrow> string \<Rightarrow> string \<Rightarrow> remote_printer list" where
  "browse_callback_remove reg now local_flag n ty dmn =
     (if local_flag then reg
      else
        case find_first
               (\<lambda>p. strcasecmp (service_name p) n = 0 \<and> strcasecmp (type p) ty = 0 \<and>
                    strcasecmp (domain p) dmn = 0) reg of
          None \<Rightarrow> reg
        | Some i \<Rightarrow>
            (let p = reg ! i in
             case (if \<not> duplicate p
                   then find_first
                          (\<lambda>q. strcasecmp (name q) (name p) = 0 \<and>
                               strcasecmp (host q) (host p) \<noteq> 0 \<and> duplicate q) reg
                   else None) of
               Some j \<Rightarrow>
                 (let q = reg ! j in
                  reg[i := p\<lparr>uri := uri q, host := host q, service_name := service_name q,
                             type := type q, domain := domain q,
                             ppd := replace_pointer (ppd p) (ppd q),
                             model := replace_pointer (model p) (model q),
                             ifscript := replace_pointer (ifscript p) (ifscript q),
                             status := STATUS_TO_BE_CREATED,
                             timeout := now + TIMEOUT_IMMEDIATELY\<rparr>,
                      j := q\<lparr>status := STATUS_DISAPPEARED,
                             timeout := now + TIMEOUT_IMMEDIATELY\<rparr>])
             | None \<Rightarrow>
                 reg[i := p\<lparr>status := STATUS_DISAPPEARED, timeout := now + TIMEOUT_REMOVE\<rparr>]))"

section \<open>The callers of the resolver and the callbacks of the main loop\<close>

text \<open>
  \<open>create_local_queue\<close> and \<open>generate_local_queue\<close> return a pointer to an entry of
  the array, and the model returns the entry. A caller that writes through the pointer
  changes the entry of the registry that has this content (the first one, should two
  entries agree in every field).
\<close>

definition at_pointer ::
  "remote_printer list \<Rightarrow> remote_printer \<Rightarrow> (remote_printer \<Rightarrow> remote_printer) \<Rightarrow>
   remote_printer list" where
  "at_pointer reg p f =
     (case find_first (\<lambda>q. q = p) reg of None \<Rightarrow> reg | Some i \<Rightarrow> reg[i := f p])"

text \<open>
  \<open>find_previous_queue\<close>, which \<open>main\<close> applies at startup to every element of the
  table of local queues (\<open>g_hash_table_foreach\<close>, here in the order of the list): a
  queue that carries the mark of this daemon gets an entry in \<open>STATUS_UNCONFIRMED\<close>.
  \<open>browse_cups\<close> is \<open>BrowseRemoteProtocols & BROWSE_CUPS\<close>. The result \<open>None\<close> is
  \<open>exit(1)\<close>, taken when \<open>create_local_queue\<close> returns NULL.
\<close>

definition find_previous_queue ::
  "config \<Rightarrow> network \<Rightarrow> bool \<Rightarrow> int \<Rightarrow> remote_printer list \<Rightarrow> string \<times> local_printer \<Rightarrow>
   remote_printer list option" where
  "find_previous_queue cfg net browse_cups t reg e =
     (if cups_browsed_controlled (snd e) then
        (case create_local_queue cfg net reg t (fst e) (device_uri (snd e)) [] [] [] []
                None None 1 of
           (None, reg1) \<Rightarrow> None
         | (Some p, reg1) \<Rightarrow>
             Some (at_pointer reg1 p
                     (\<lambda>q. q\<lparr>status := STATUS_UNCONFIRMED,
                            timeout := t + (if browse_cups then int (BrowseTimeout cfg)
                                            else TIMEOUT_CONFIRM),
                            duplicate := False\<rparr>)))
      else Some reg)"

fun find_previous_queues ::
  "config \<Rightarrow> network \<Rightarrow> bool \<Rightarrow> int \<Rightarrow> remote_printer list \<Rightarrow> local_printers \<Rightarrow>
   remote_printer list option" where
  "find_previous_queues cfg net browse_cups t reg [] = Some reg"
| "find_previous_queues cfg net browse_cups t reg (e # es) =
     (case find_previous_queue cfg net browse_cups t reg e of
        None \<Rightarrow> None
      | Some reg1 \<Rightarrow> find_previous_queues cfg net browse_cups t reg1 es)"

text \<open>
  \<open>found_cups_printer\<close>, the announcement of a queue by the legacy browse protocol or
  by a polled server. \<open>h\<close>, \<open>port\<close> and \<open>resource\<close> are what \<open>httpSeparateURI\<close>
  leaves in \<open>host\<close>, \<open>port\<close> and \<open>resource\<close>; \<open>netifs\<close> holds the addresses of the
  machine's own interfaces. The resolver is called with the resource after its first
  character and up to a question mark, the info text as the service name, empty type
  and domain and no TXT record. The entry it returns then starts or renews its lease:
  \<open>t\<close> is the clock inside the resolver, \<open>lease_now\<close> the clock read for the lease.
\<close>

definition found_cups_printer ::
  "config \<Rightarrow> network \<Rightarrow> local_printers \<Rightarrow> string list \<Rightarrow> remote_printer list \<Rightarrow> int \<Rightarrow> int \<Rightarrow>
   string \<Rightarrow> nat \<Rightarrow> string \<Rightarrow> string option \<Rightarrow> error + remote_printer list" where
  "found_cups_printer cfg net lps netifs reg t lease_now h port resource info =
     (if list_ex (\<lambda>a. strcasecmp h a = 0) netifs then Inr reg
      else if strncasecmp resource ''/printers/'' 10 \<noteq> 0 \<and>
              strncasecmp resource ''/classes/'' 9 \<noteq> 0
      then Inr reg
      else
        bind_err
          (generate_local_queue cfg net lps reg t h port
             (takeWhile (\<lambda>c. c \<noteq> CHR ''?'') (drop 1 resource))
             (case info of None \<Rightarrow> [] | Some s \<Rightarrow> s) [] [] None)
          (\<lambda>res.
             case fst res of
               None \<Rightarrow> Inr (snd res)
             | Some p \<Rightarrow>
                 Inr (at_pointer (snd res) p
                        (\<lambda>q. if status q = STATUS_TO_BE_CREATED
                              then q\<lparr>status := STATUS_BROWSE_PACKET_RECEIVED\<rparr>
                              else q\<lparr>status := STATUS_DISAPPEARED,
                                     timeout := lease_now + int (BrowseTimeout cfg)\<rparr>))))"

text \<open>
  A list of queues of one server, each with the parts of its URI and its info text,
  handed to \<open>found_cups_printer\<close> one after the other.
\<close>

type_synonym polled_printer = "string \<times> nat \<times> string \<times> string option"

fun found_cups_printers ::
  "config \<Rightarrow> network \<Rightarrow> local_printers \<Rightarrow> string list \<Rightarrow> remote_printer list \<Rightarrow> int \<Rightarrow> int \<Rightarrow>
   polled_printer list \<Rightarrow> error + remote_printer list" where
  "found_cups_printers cfg net lps netifs reg t lease_now [] = Inr reg"
| "found_cups_printers cfg net lps netifs reg t lease_now (q # qs) =
     bind_err
       (found_cups_printer cfg net lps netifs reg t lease_now
          (fst q) (fst (snd q)) (fst (snd (snd q))) (snd (snd (snd q))))
       (\<lambda>reg1. found_cups_printers cfg net lps netifs reg1 t lease_now qs)"

text \<open>
  \<open>resolve_callback\<close>. For \<open>AVAHI_RESOLVER_FOUND\<close> the key and the value of the TXT
  fields \<open>rp\<close> and \<open>adminurl\<close> are taken (\<open>avahi_string_list_get_pair\<close> gives
  the value NULL for a field without \<open>=\<close>), with defaults for a field that is
  absent, and the resolver is called with the value of \<open>rp\<close> as the resource when
  both values are non-NULL. In every case the function ends with \<open>recheck_timer\<close>;
  \<open>now\<close> is the clock read there.
\<close>

datatype AvahiResolverEvent = AVAHI_RESOLVER_FOUND | AVAHI_RESOLVER_FAILURE

definition txt_pair :: "txt_record option \<Rightarrow> string \<Rightarrow> string \<Rightarrow> string \<times> string option" where
  "txt_pair txt k dflt =
     (case txt of
        None \<Rightarrow> (k, Some dflt)
      | Some l \<Rightarrow>
          (case avahi_string_list_find l k of None \<Rightarrow> (k, Some dflt) | Some e \<Rightarrow> e))"

definition resolve_callback ::
  "config \<Rightarrow> network \<Rightarrow> local_printers \<Rightarrow> daemon \<Rightarrow> int \<Rightarrow> int \<Rightarrow> AvahiResolverEvent \<Rightarrow>
   string \<Rightarrow> string \<Rightarrow> string \<Rightarrow> string \<Rightarrow> nat \<Rightarrow> txt_record option \<Rightarrow> error + daemon" where
  "resolve_callback cfg net lps st t now ev n ty dmn host_name port txt =
     (case ev of
        AVAHI_RESOLVER_FAILURE \<Rightarrow> Inr (recheck_timer st now)
      | AVAHI_RESOLVER_FOUND \<Rightarrow>
          (let rp = txt_pair txt ''rp'' [];
               adminurl = txt_pair txt ''adminurl'' (''http://'' @ host_name)
           in
             case snd rp of
               None \<Rightarrow> Inr (recheck_timer st now)
             | Some rp_value \<Rightarrow>
                 if snd adminurl \<noteq> None \<and> strcasecmp (fst rp) ''rp'' = 0 \<and>
                    strcasecmp (fst adminurl) ''adminurl'' = 0
                 then
                   bind_err
                     (generate_local_queue cfg net lps (remote_printers st) t host_name port
                        rp_value n ty dmn txt)
                     (\<lambda>res. Inr (recheck_timer (st\<lparr>remote_printers := snd res\<rparr>) now))
                 else Inr (recheck_timer st now)))"

text \<open>
  \<open>browse_callback\<close>. Only \<open>AVAHI_BROWSER_REMOVE\<close> changes the registry, and it ends
  with \<open>recheck_timer\<close> when it has found the entry of the service.
  \<open>AVAHI_BROWSER_NEW\<close> starts the resolution, whose result arrives in
  \<open>resolve_callback\<close>; \<open>AVAHI_BROWSER_FAILURE\<close> asks the main loop to end.
\<close>

datatype AvahiBrowserEvent =
    AVAHI_BROWSER_NEW
  | AVAHI_BROWSER_REMOVE
  | AVAHI_BROWSER_CACHE_EXHAUSTED
  | AVAHI_BROWSER_ALL_FOR_NOW
  | AVAHI_BROWSER_FAILURE

definition browse_callback ::
  "daemon \<Rightarrow> int \<Rightarrow> int \<Rightarrow> AvahiBrowserEvent \<Rightarrow> bool \<Rightarrow> string \<Rightarrow> string \<Rightarrow> string \<Rightarrow> daemon" where
  "browse_callback st t now ev local_flag n ty dmn =
     (if ev = AVAHI_BROWSER_REMOVE \<and> \<not> local_flag then
        (case find_first
                (\<lambda>p. strcasecmp (service_name p) n = 0 \<and> strcasecmp (type p) ty = 0 \<and>
                     strcasecmp (domain p) dmn = 0) (remote_printers st) of
           None \<Rightarrow> st
         | Some i \<Rightarrow>
             recheck_timer
               (st\<lparr>remote_printers :=
                     browse_callback_remove (remote_printers st) t local_flag n ty dmn\<rparr>) now)
      else st)"

text \<open>
  \<open>process_browse_data\<close>, from the point where a packet of the legacy protocol has
  been received, admitted and read (before that point the function returns without a
  change). \<open>del_flag\<close> is \<open>type & CUPS_PRINTER_DELETE\<close>. The function ends with
  \<open>recheck_timer\<close>.
\<close>

definition process_browse_data ::
  "config \<Rightarrow> network \<Rightarrow> local_printers \<Rightarrow> string list \<Rightarrow> daemon \<Rightarrow> int \<Rightarrow> int \<Rightarrow> int \<Rightarrow>
   bool \<Rightarrow> string \<Rightarrow> nat \<Rightarrow> string \<Rightarrow> string \<Rightarrow> error + daemon" where
  "process_browse_data cfg net lps netifs st t lease_now now del_flag h port resource info =
     bind_err
       (if del_flag then Inr (remote_printers st)
        else found_cups_printer cfg net lps netifs (remote_printers st) t lease_now
               h port resource (Some info))
       (\<lambda>reg1. Inr (recheck_timer (st\<lparr>remote_printers := reg1\<rparr>) now))"

text \<open>
  \<open>browse_poll_get_printers\<close>: \<open>response\<close> is \<open>None\<close> when the request to the polled
  server fails, and else the queues of the answer that have a URI. After the last one
  the function calls \<open>recheck_timer\<close>.
\<close>

definition browse_poll_get_printers ::
  "config \<Rightarrow> network \<Rightarrow> local_printers \<Rightarrow> string list \<Rightarrow> daemon \<Rightarrow> int \<Rightarrow> int \<Rightarrow> int \<Rightarrow>
   polled_printer list option \<Rightarrow> error + daemon" where
  "browse_poll_get_printers cfg net lps netifs st t lease_now now response =
     (case response of
        None \<Rightarrow> Inr st
      | Some printers \<Rightarrow>
          bind_err
            (found_cups_printers cfg net lps netifs (remote_printers st) t lease_now printers)
            (\<lambda>reg1. Inr (recheck_timer (st\<lparr>remote_printers := reg1\<rparr>) now)))"

text \<open>
  \<open>browse_poll\<close>, the periodic poll of one server. \<open>conn_ok\<close>: the connection to the
  server was opened. \<open>get_printers\<close>: the list of queues is to be fetched (no
  subscription, a new or expired one, or a printer event was notified). Otherwise the
  list kept from the last fetch, \<open>printers\<close>, is announced again by
  \<open>browsepoll_printer_keepalive\<close>, which calls \<open>found_cups_printer\<close> for each
  element; this branch does not call \<open>recheck_timer\<close>.
\<close>

definition browse_poll ::
  "config \<Rightarrow> network \<Rightarrow> local_printers \<Rightarrow> string list \<Rightarrow> daemon \<Rightarrow> int \<Rightarrow> int \<Rightarrow> int \<Rightarrow>
   bool \<Rightarrow> bool \<Rightarrow> polled_printer list option \<Rightarrow> polled_printer list \<Rightarrow> error + daemon" where
  "browse_poll cfg net lps netifs st t lease_now now conn_ok get_printers response printers =
     (if \<not> conn_ok then Inr st
      else if get_printers
      then browse_poll_get_printers cfg net lps netifs st t lease_now now response
      else
        bind_err
          (found_cups_printers cfg net lps netifs (remote_printers st) t lease_now printers)
          (\<lambda>reg1. Inr (st\<lparr>remote_printers := reg1\<rparr>)))"

text \<open>
  \<open>avahi_browser_shutdown\<close>, which \<open>client_callback\<close> calls when the connection to
  the DNS-SD daemon is lost: every entry with a service type is set to
  \<open>STATUS_DISAPPEARED\<close> with the timeout \<open>time(NULL) + TIMEOUT_IMMEDIATELY\<close>, and
  \<open>handle_cups_queues\<close> runs.
\<close>

definition avahi_browser_shutdown ::
  "config \<Rightarrow> daemon \<Rightarrow> spooler \<Rightarrow> int \<Rightarrow> int \<Rightarrow> int \<Rightarrow> int \<Rightarrow> daemon \<times> spooler" where
  "avahi_browser_shutdown cfg st sp t current_time lease_now now =
     handle_cups_queues cfg
       (st\<lparr>remote_printers :=
             map (\<lambda>p. if type p \<noteq> [] then mark_disappeared t p else p) (remote_printers st)\<rparr>)
       sp current_time lease_now now"

text \<open>
  The events that change deadlines while the daemon runs, each with the arguments of
  the callback the main loop calls for it: a result of the DNS-SD resolver, an event of
  the DNS-SD browser, the loss of the DNS-SD daemon, a packet of the legacy protocol,
  the poll of a server, and the timer of the reconciliation pass. \<open>handle_event\<close> is
  the dispatch of the main loop. \<open>t\<close> and \<open>lease_now\<close> are the clock readings while
  the event is handled, \<open>now\<close> the reading of \<open>recheck_timer\<close>.
\<close>

datatype event =
    Resolver AvahiResolverEvent string string string string nat "txt_record option"
  | Browser AvahiBrowserEvent bool string string string
  | Avahi_disconnected
  | Browse_packet bool string nat string string
  | Browse_poll bool bool "polled_printer list option" "polled_printer list"
  | Queues_timer

fun handle_event ::
  "config \<Rightarrow> network \<Rightarrow> local_printers \<Rightarrow> string list \<Rightarrow> int \<Rightarrow> int \<Rightarrow> int \<Rightarrow> event \<Rightarrow>
   daemon \<times> spooler \<Rightarrow> error + (daemon \<times> spooler)" where
  "handle_event cfg net lps netifs t lease_now now
     (Resolver e n ty dmn host_name port txt) (st, sp) =
     bind_err (resolve_callback cfg net lps st t now e n ty dmn host_name port txt)
       (\<lambda>st1. Inr (st1, sp))"
| "handle_event cfg net lps netifs t lease_now now (Browser e local_flag n ty dmn) (st, sp) =
     Inr (browse_callback st t now e local_flag n ty dmn, sp)"
| "handle_event cfg net lps netifs t lease_now now Avahi_disconnected (st, sp) =
     Inr (avahi_browser_shutdown cfg st sp t t lease_now now)"
| "handle_event cfg net lps netifs t lease_now now
     (Browse_packet del_flag h port resource info) (st, sp) =
     bind_err
       (process_browse_data cfg net lps netifs st t lease_now now del_flag h port resource info)
       (\<lambda>st1. Inr (st1, sp))"
| "handle_event cfg net lps netifs t lease_now now
     (Browse_poll conn_ok get_printers response printers) (st, sp) =
     bind_err
       (browse_poll cfg net lps netifs st t lease_now now conn_ok get_printers response
          printers)
       (\<lambda>st1. Inr (st1, sp))"
| "handle_event cfg net lps netifs t lease_now now Queues_timer (st, sp) =
     Inr (handle_cups_queues cfg st sp t lease_now now)"

section \<open>Notions used to state the properties\<close>

text \<open>
  The sanitizer as the specification words it: every maximal run of characters that
  are not kept becomes one dash, then the dashes at both ends are removed.
\<close>

function collapse_runs :: "int \<Rightarrow> string \<Rightarrow> string" where
  "collapse_runs mode [] = []"
| "collapse_runs mode (c # cs) =
     (if allowed_char mode c then c # collapse_runs mode cs
      else CHR ''-'' # collapse_runs mode (dropWhile (\<lambda>x. \<not> allowed_char mode x) cs))"
  by pat_completeness auto
termination
  by (relation "measure (\<lambda>(mode, s). length s)")
     (auto simp: le_imp_less_Suc length_dropWhile_le)

definition trim_dashes :: "string \<Rightarrow> string" where
  "trim_dashes s =
     dropWhile (\<lambda>c. c = CHR ''-'') (rev (dropWhile (\<lambda>c. c = CHR ''-'') (rev s)))"

definition sanitize_spec :: "int \<Rightarrow> string \<Rightarrow> string" where
  "sanitize_spec mode s = trim_dashes (collapse_runs mode s)"

text \<open>What the \<open>for\<close> loop of \<open>remove_bad_chars\<close> writes for the rest of its input.\<close>

fun rbc_out :: "int \<Rightarrow> bool \<Rightarrow> string \<Rightarrow> string" where
  "rbc_out mode h [] = []"
| "rbc_out mode h (c # cs) =
     (if allowed_char mode c then c # rbc_out mode False cs
      else if h then rbc_out mode True cs
      else CHR ''-'' # rbc_out mode True cs)"

text \<open>
  Uniqueness in the registry: of the entries that share a name, letter case ignored,
  at most one is not a duplicate.
\<close>

fun unique_primary :: "remote_printer list \<Rightarrow> bool" where
  "unique_primary [] = True"
| "unique_primary (p # ps) =
     (list_all (\<lambda>q. strcasecmp (name q) (name p) = 0 \<longrightarrow> duplicate p \<or> duplicate q) ps \<and>
      unique_primary ps)"

text \<open>The requests a pass adds to the spooler's log, and their kinds.\<close>

definition new_calls :: "spooler \<Rightarrow> spooler \<Rightarrow> spooler_call list" where
  "new_calls sp sp1 = drop (length (calls sp)) (calls sp1)"

fun is_delete :: "spooler_call \<Rightarrow> bool" where
  "is_delete (Delete_Printer n) = True"
| "is_delete c = False"

fun is_add_modify :: "spooler_call \<Rightarrow> bool" where
  "is_add_modify (Add_Modify_Printer n u f) = True"
| "is_add_modify c = False"

text \<open>A create-or-modify request for the queue of the entry \<open>p\<close>.\<close>

fun provisions :: "remote_printer \<Rightarrow> spooler_call \<Rightarrow> bool" where
  "provisions p (Add_Modify_Printer n u f) = (n = name p \<and> u = uri p)"
| "provisions p c = False"

text \<open>
  One of the guards of the removal holds for the entry: no connection, active jobs or
  an error of the job query, the queue is the system default, or the delete fails.
\<close>

definition removal_blocked :: "spooler \<Rightarrow> remote_printer \<Rightarrow> bool" where
  "removal_blocked sp p =
     (\<not> connect_ok sp \<or> active_jobs sp (name p) \<noteq> 0 \<or> is_default sp (name p) \<or>
      \<not> delete_ok sp (name p))"

text \<open>Two spooler states give the same answers.\<close>

definition same_answers :: "spooler \<Rightarrow> spooler \<Rightarrow> bool" where
  "same_answers sp sp1 =
     (connect_ok sp1 = connect_ok sp \<and> active_jobs sp1 = active_jobs sp \<and>
      default_printer sp1 = default_printer sp \<and> delete_ok sp1 = delete_ok sp \<and>
      add_ok sp1 = add_ok sp \<and> server_ppd sp1 = server_ppd sp)"

text \<open>
  The delays \<open>max(0, deadline - now)\<close> of the entries whose deadline is not Never, and
  the timer the specification asks for: none when there is no such entry, else exactly
  one pending source, with id \<open>i\<close>, whose interval is the least delay.
\<close>

definition delays :: "int \<Rightarrow> remote_printer list \<Rightarrow> int list" where
  "delays now reg = map (\<lambda>p. max 0 (timeout p - now)) (filter (\<lambda>p. timeout p \<noteq> -1) reg)"

definition timer_matches :: "daemon \<Rightarrow> nat \<Rightarrow> int \<Rightarrow> bool" where
  "timer_matches st i now =
     (if delays now (remote_printers st) = []
      then timer_sources st = [] \<and> queues_timer_id st = None
      else timer_sources st = [(i, nat (Min (set (delays now (remote_printers st)))))] \<and>
           queues_timer_id st = Some i)"

text \<open>
  A poll that announces the list of its last fetch again: the one event of the list
  above whose callback sets deadlines and does not call \<open>recheck_timer\<close>.
\<close>

fun keep_alive :: "event \<Rightarrow> bool" where
  "keep_alive (Browse_poll conn_ok get_printers response printers) =
     (conn_ok \<and> \<not> get_printers)"
| "keep_alive e = False"

text \<open>
  The deadlines of a registry lie less than \<open>2^32\<close> seconds after \<open>now\<close>, so that the
  least delay fits the \<open>guint\<close> that GLib takes.
\<close>

definition in_range :: "int \<Rightarrow> remote_printer list \<Rightarrow> bool" where
  "in_range now reg = list_all (\<lambda>p. timeout p = -1 \<or> timeout p - now < 4294967296) reg"

text \<open>The only pending source, if any, is the one \<open>queues_timer_id\<close> names.\<close>

definition own_timer_only :: "daemon \<Rightarrow> bool" where
  "own_timer_only st = list_all (\<lambda>s. queues_timer_id st = Some (fst s)) (timer_sources st)"

text \<open>
  The state \<open>st1\<close> is what \<open>recheck_timer\<close> at time \<open>now\<close> makes of \<open>st\<close> with
  some registry.
\<close>

definition rechecked :: "daemon \<Rightarrow> int \<Rightarrow> daemon \<Rightarrow> bool" where
  "rechecked st now st1 = (\<exists>reg1. st1 = recheck_timer (st\<lparr>remote_printers := reg1\<rparr>) now)"

section \<open>Concrete inputs\<close>

definition ex_config :: config where
  "ex_config = \<lparr>BrowseTimeout = 300, CreateIPPPrinterQueues = 1\<rparr>"

definition ex_config_off :: config where
  "ex_config_off = \<lparr>BrowseTimeout = 300, CreateIPPPrinterQueues = 0\<rparr>"

text \<open>A network on which every probe succeeds; URIs are assembled for port 631.\<close>

definition ex_network :: network where
  "ex_network =
     \<lparr>httpAssembleURI = (\<lambda>scheme h port resource. scheme @ ''://'' @ h @ '':631/'' @ resource),
      httpSeparateURI_ok = (\<lambda>u. True),
      httpConnect_ok = (\<lambda>u. True),
      ppdCreateFromIPP = (\<lambda>u. Some ''/tmp/ipp.ppd''),
      cupsTempFd = Some ''/tmp/script'',
      write_ok = (\<lambda>f. True)\<rparr>"

text \<open>The TXT record of a network printer that understands PDF.\<close>

definition ex_txt :: "txt_record option" where
  "ex_txt = Some [(''ty'', Some ''HP LaserJet 400''), (''pdl'', Some ''application/pdf'')]"

text \<open>The entries of two printers of that model, on the hosts \<open>lj-one\<close> and \<open>lj-two\<close>.\<close>

definition ex_first :: remote_printer where
  "ex_first =
     \<lparr>name = ''HP-LaserJet-400'', uri = ''ipp://lj-one.local:631/ipp/print'',
      ppd = Some ''/tmp/ipp.ppd'', model = None, ifscript = None,
      status = STATUS_TO_BE_CREATED, timeout = 999, duplicate = False, host = ''lj-one'',
      service_name = ''LaserJet one'', type = ''_ipp._tcp'', domain = ''local''\<rparr>"

definition ex_second :: remote_printer where
  "ex_second =
     \<lparr>name = ''HP-LaserJet-400'', uri = ''ipp://lj-two.local:631/ipp/print'',
      ppd = Some ''/tmp/ipp.ppd'', model = None, ifscript = None,
      status = STATUS_TO_BE_CREATED, timeout = 1000, duplicate = False, host = ''lj-two'',
      service_name = ''LaserJet two'', type = ''_ipp._tcp'', domain = ''local''\<rparr>"

text \<open>
  A network printer with a generated PPD, confirmed, and the duplicate entry of a
  remote CUPS queue of the same name on another host.
\<close>

definition ex_primary :: remote_printer where
  "ex_primary =
     \<lparr>name = ''printer'', uri = ''ipp://dev.local:631/ipp/print'',
      ppd = Some ''/tmp/ipp.ppd'', model = None, ifscript = None,
      status = STATUS_CONFIRMED, timeout = -1, duplicate = False, host = ''dev'',
      service_name = ''Device'', type = ''_ipp._tcp'', domain = ''local''\<rparr>"

definition ex_backup :: remote_printer where
  "ex_backup =
     \<lparr>name = ''printer'', uri = ''ipp://srv.local:631/printers/printer'',
      ppd = None, model = None, ifscript = None,
      status = STATUS_TO_BE_CREATED, timeout = 1999, duplicate = True, host = ''srv'',
      service_name = ''printer @ srv'', type = ''_ipp._tcp'', domain = ''local''\<rparr>"

definition ex_cups_txt :: "txt_record option" where
  "ex_cups_txt = Some [(''product'', Some ''(HP LaserJet 400)'')]"

text \<open>
  An entry rebuilt at startup from a queue of an earlier session, and the table of
  local queues that holds that queue.
\<close>

definition ex_office :: remote_printer where
  "ex_office =
     \<lparr>name = ''Office'', uri = ''ipp://srv.local:631/printers/Office'',
      ppd = None, model = None, ifscript = None,
      status = STATUS_UNCONFIRMED, timeout = 1010, duplicate = False, host = [],
      service_name = [], type = [], domain = []\<rparr>"

definition ex_local_office :: local_printers where
  "ex_local_office =
     [(''Office'', \<lparr>device_uri = ''ipp://srv.local:631/printers/Office'',
                    cups_browsed_controlled = True\<rparr>)]"

definition ex_old :: remote_printer where
  "ex_old =
     \<lparr>name = ''printer'', uri = ''ipp://old.local:631/ipp/print'',
      ppd = None, model = None, ifscript = None,
      status = STATUS_UNCONFIRMED, timeout = 1010, duplicate = False, host = [],
      service_name = [], type = [], domain = []\<rparr>"

definition ex_local_old :: local_printers where
  "ex_local_old =
     [(''printer'', \<lparr>device_uri = ''ipp://old.local:631/ipp/print'',
                     cups_browsed_controlled = True\<rparr>)]"

text \<open>
  A provisioned, confirmed entry; a spooler that holds its queue; the same spooler with
  one active job on every queue; a daemon at shutdown, its main loop gone; and a
  running daemon at time 1000, whose timer is armed for the deadline 1010 of \<open>Office\<close>.
\<close>

definition ex_lab :: remote_printer where
  "ex_lab =
     \<lparr>name = ''Lab'', uri = ''ipp://srv.local:631/printers/Lab'',
      ppd = None, model = None, ifscript = None,
      status = STATUS_CONFIRMED, timeout = -1, duplicate = False, host = ''srv'',
      service_name = ''Lab @ srv'', type = ''_ipp._tcp'', domain = ''local''\<rparr>"

definition ex_spooler :: spooler where
  "ex_spooler =
     \<lparr>connect_ok = True, active_jobs = (\<lambda>n. 0), default_printer = None,
      delete_ok = (\<lambda>n. True), add_ok = (\<lambda>n. True), server_ppd = (\<lambda>m. None),
      queues = [''Lab''], calls = []\<rparr>"

definition ex_spooler_busy :: spooler where
  "ex_spooler_busy = ex_spooler\<lparr>active_jobs := (\<lambda>n. 1)\<rparr>"

definition ex_daemon :: daemon where
  "ex_daemon =
     \<lparr>remote_printers = [ex_lab], gmainloop = False, queues_timer_id = None,
      timer_sources = [], next_source_id = 1\<rparr>"

definition ex_daemon_running :: daemon where
  "ex_daemon_running =
     \<lparr>remote_printers = [ex_lab, ex_office],
      gmainloop = True, queues_timer_id = Some 7, timer_sources = [(7, 10)],
      next_source_id = 8\<rparr>"

text \<open>
  That daemon after the service of \<open>Lab\<close> has been withdrawn at time 1000; the entry
  \<open>Office\<close> with the lease that a legacy announcement at time 1005 gives it; a poll
  answer that lists the queue \<open>Office\<close>; and a spooler that holds the queue
  \<open>Office\<close>.
\<close>

definition ex_after_withdrawal :: daemon where
  "ex_after_withdrawal =
     \<lparr>remote_printers = [ex_lab\<lparr>status := STATUS_DISAPPEARED, timeout := 999\<rparr>, ex_office],
      gmainloop = True, queues_timer_id = Some 8, timer_sources = [(8, 0)],
      next_source_id = 9\<rparr>"

definition ex_office_leased :: remote_printer where
  "ex_office_leased = ex_office\<lparr>status := STATUS_DISAPPEARED, timeout := 1305\<rparr>"

definition ex_polled :: "polled_printer list" where
  "ex_polled = [(''srv.local'', 631, ''/printers/Office'', None)]"

definition ex_spooler_office :: spooler where
  "ex_spooler_office = ex_spooler\<lparr>queues := [''Office'']\<rparr>"

text \<open>The entries the resolver and the withdrawal leave in the examples below.\<close>

definition ex_office_confirmed :: remote_printer where
  "ex_office_confirmed =
     \<lparr>name = ''Office'', uri = ''ipp://srv.local:631/printers/Office'',
      ppd = None, model = None, ifscript = None,
      status = STATUS_CONFIRMED, timeout = -1, duplicate = False, host = ''srv'',
      service_name = ''Office at srv'', type = ''_ipp._tcp'', domain = ''local''\<rparr>"

definition ex_old_changed :: remote_printer where
  "ex_old_changed =
     \<lparr>name = ''printer'', uri = ''ipp://new.local:631/ipp/print'',
      ppd = None, model = None, ifscript = None,
      status = STATUS_TO_BE_CREATED, timeout = 999, duplicate = False, host = ''new'',
      service_name = ''New'', type = ''_ipp._tcp'', domain = ''local''\<rparr>"

definition ex_local_dev :: local_printers where
  "ex_local_dev =
     [(''printer'', \<lparr>device_uri = ''ipp://dev.local:631/ipp/print'',
                     cups_browsed_controlled = True\<rparr>)]"

definition ex_promoted :: remote_printer where
  "ex_promoted =
     \<lparr>name = ''printer'', uri = ''ipp://srv.local:631/printers/printer'',
      ppd = Some ''/tmp/ipp.ppd'', model = None, ifscript = None,
      status = STATUS_TO_BE_CREATED, timeout = 2099, duplicate = False, host = ''srv'',
      service_name = ''printer @ srv'', type = ''_ipp._tcp'', domain = ''local''\<rparr>"

definition ex_unknown_txt :: "txt_record option" where
  "ex_unknown_txt = Some [(''pdl'', Some ''application/octet-stream'')]"

section \<open>Properties of the sanitizer\<close>

text \<open>
  The in-place loop writes, after the characters already written, what \<open>rbc_out\<close>
  gives for the rest of the input.
\<close>

lemma rbc_for_out:
  "j \<le> i \<Longrightarrow> i \<le> length str \<Longrightarrow>
   (case rbc_for mode i j h str of
      (j', buf) \<Rightarrow> take j' buf = take j str @ rbc_out mode h (drop i str))"
proof (induction mode i j h str rule: rbc_for.induct)
  case (1 mode i j havedash str)
  show ?case
  proof (cases "i < length str")
    case False
    with 1(4,5) show ?thesis by (simp add: rbc_for.simps[of mode i j havedash str])
  next
    case True
    note lt = True
    have d: "drop i str = str ! i # drop (Suc i) str"
      using lt by (simp add: Cons_nth_drop_Suc)
    have jl: "j < length str" using lt 1(4) by simp
    show ?thesis
    proof (cases "allowed_char mode (str ! i)")
      case True
      have "case rbc_for mode (i + 1) (j + 1) False (str[j := str ! i]) of
              (j', buf) \<Rightarrow> take j' buf = take (j + 1) (str[j := str ! i]) @
                 rbc_out mode False (drop (i + 1) (str[j := str ! i]))"
        using 1(1)[OF lt True] 1(4) lt by simp
      moreover have "take (j + 1) (str[j := str ! i]) = take j str @ [str ! i]"
        using jl by (simp add: take_Suc_conv_app_nth)
      moreover have "drop (i + 1) (str[j := str ! i]) = drop (Suc i) str"
        using 1(4) by simp
      ultimately show ?thesis
        using lt True d by (simp add: rbc_for.simps[of mode i j havedash str])
    next
      case False
      note na = False
      show ?thesis
      proof (cases havedash)
        case True
        have "case rbc_for mode (i + 1) j True str of
              (j', buf) \<Rightarrow> take j' buf = take j str @ rbc_out mode True (drop (i + 1) str)"
          using 1(2)[OF lt na True] 1(4) lt by simp
        then show ?thesis
          using lt na True d by (simp add: rbc_for.simps[of mode i j havedash str])
      next
        case False
        have "case rbc_for mode (i + 1) (j + 1) True (str[j := CHR ''-'']) of
              (j', buf) \<Rightarrow> take j' buf = take (j + 1) (str[j := CHR ''-'']) @
                 rbc_out mode True (drop (i + 1) (str[j := CHR ''-'']))"
          using 1(3)[OF lt na False] 1(4) lt by simp
        moreover have "take (j + 1) (str[j := CHR ''-'']) = take j str @ [CHR ''-'']"
          using jl by (simp add: take_Suc_conv_app_nth)
        moreover have "drop (i + 1) (str[j := CHR ''-'']) = drop (Suc i) str"
          using 1(4) by simp
        ultimately show ?thesis
          using lt na False d by (simp add: rbc_for.simps[of mode i j havedash str])
      qed
    qed
  qed
qed

lemma rbc_out_collapse:
  "rbc_out mode False s = collapse_runs mode s \<and>
   rbc_out mode True s = collapse_runs mode (dropWhile (\<lambda>x. \<not> allowed_char mode x) s)"
  by (induction s) auto

lemma cut_trailing_eq:
  "cut_trailing s =
     (if \<forall>c\<in>set s. c = CHR ''-'' then Inl Out_of_bounds
      else Inr (rev (dropWhile (\<lambda>c. c = CHR ''-'') (rev s))))"
proof (induction s rule: rev_induct)
  case Nil
  show ?case by simp
next
  case (snoc x xs)
  then show ?case by (simp del: cut_trailing.simps add: cut_trailing.simps[of "xs @ [x]"])
qed

lemma dash_not_allowed: "\<not> allowed_char mode (CHR ''-'')"
  by (simp add: allowed_char_def)

lemma collapse_all_dash:
  "(\<forall>c\<in>set (collapse_runs mode s). c = CHR ''-'') \<longleftrightarrow> (\<forall>c\<in>set s. \<not> allowed_char mode c)"
proof (induction mode s rule: collapse_runs.induct)
  case (1 mode)
  show ?case by simp
next
  case (2 mode c cs)
  show ?case
  proof (cases "allowed_char mode c")
    case True
    then show ?thesis using dash_not_allowed[of mode] by auto
  next
    case False
    have "(\<forall>x\<in>set (dropWhile (\<lambda>x. \<not> allowed_char mode x) cs). \<not> allowed_char mode x)
          \<longleftrightarrow> (\<forall>x\<in>set cs. \<not> allowed_char mode x)"
      by (induction cs) auto
    with 2(2)[OF False] False show ?thesis by simp
  qed
qed

text \<open>
  The whole of \<open>remove_bad_chars\<close> on a non-NULL string: the empty string is
  returned as it is; a string with at least one kept character gives what the
  specification describes; a non-empty string with no kept character makes the loop
  that cuts trailing dashes read \<open>str[-1]\<close>.
\<close>

lemma remove_bad_chars_refines:
  "remove_bad_chars (Some s) mode =
     (if s = [] then Inr (Some [])
      else if \<forall>c\<in>set s. \<not> allowed_char mode c then Inl Out_of_bounds
      else Inr (Some (sanitize_spec mode s)))"
proof (cases "s = []")
  case True
  then show ?thesis by (simp add: remove_bad_chars_def)
next
  case False
  obtain j buf where r: "rbc_for mode 0 0 False s = (j, buf)"
    by (cases "rbc_for mode 0 0 False s")
  have "take j buf = collapse_runs mode s"
    using rbc_for_out[of 0 0 s mode False] r by (simp add: rbc_out_collapse)
  then show ?thesis
    using False r
    by (simp add: remove_bad_chars_def cut_trailing_eq collapse_all_dash sanitize_spec_def
        trim_dashes_def cut_leading_def del: cut_trailing.simps rbc_for.simps)
qed

text \<open>
  C8. The three examples of the claim hold, and on every input with a kept character
  the code does what the claim says (\<open>remove_bad_chars_refines\<close>). The claim fails for
  an input that is made of other characters only: there the claim's function gives the
  empty string, and the code reads one byte before its buffer.
\<close>

theorem sanitizer_examples_and_failing_input:
  "remove_bad_chars (Some ''HP LaserJet!! 400'') 0 = Inr (Some ''HP-LaserJet-400'') \<and>
   remove_bad_chars (Some ''-weird--name-'') 0 = Inr (Some ''weird-name'') \<and>
   remove_bad_chars (Some ''image/pwg-raster,application/pdf'') 1
     = Inr (Some ''image/pwg-raster,application/pdf'') \<and>
   sanitize_spec 0 ''?? !!'' = [] \<and>
   remove_bad_chars (Some ''?? !!'') 0 = Inl Out_of_bounds"
  by code_simp

text \<open>
  C10. On \<open>---\<close> and on \<open>!!!\<close> the \<open>for\<close> loop leaves the one-character string
  \<open>-\<close>; the loop that cuts trailing dashes empties it and then evaluates
  \<open>str[strlen(str)-1]\<close> with \<open>strlen(str) = 0\<close>, a read before the start of the buffer.
\<close>

theorem sanitizer_reads_before_buffer:
  "fst (rbc_for 0 0 0 False ''---'') = 1 \<and>
   take 1 (snd (rbc_for 0 0 0 False ''---'')) = ''-'' \<and>
   cut_trailing ''-'' = Inl Out_of_bounds \<and>
   remove_bad_chars (Some ''---'') 0 = Inl Out_of_bounds \<and>
   remove_bad_chars (Some ''!!!'') 0 = Inl Out_of_bounds"
  by code_simp

section \<open>Properties of the reconciliation pass\<close>

lemma snd_scan_printers_Cons:
  "snd (scan_printers cfg current_time lease_now (p # ps) sp)
     = snd (scan_printers cfg current_time lease_now ps
              (snd (handle_printer cfg current_time lease_now p sp)))"
  by (simp add: case_prod_beta)

lemma fst_scan_printers_Cons:
  "fst (scan_printers cfg current_time lease_now (p # ps) sp)
     = (case fst (handle_printer cfg current_time lease_now p sp) of
          None \<Rightarrow> fst (scan_printers cfg current_time lease_now ps
                         (snd (handle_printer cfg current_time lease_now p sp)))
        | Some p1 \<Rightarrow> p1 # fst (scan_printers cfg current_time lease_now ps
                         (snd (handle_printer cfg current_time lease_now p sp))))"
  by (simp add: case_prod_beta)

text \<open>
  C4. Guarded removal, for an entry in \<open>STATUS_DISAPPEARED\<close> whose deadline has
  passed. A non-duplicate entry with active jobs, a failed job query or the default
  queue is kept with the deadline \<open>current_time + TIMEOUT_RETRY\<close>, the spooler keeps
  its queues and no delete request is sent. With a connection, no jobs and not the
  default, the requests sent are the job query, the default query and the delete; when
  the delete succeeds the entry is destroyed and the queue is gone, when it fails the
  entry is kept with the retry deadline. A duplicate entry is destroyed and the spooler
  is not touched.
\<close>

theorem guarded_removal:
  assumes "status p = STATUS_DISAPPEARED" and "timeout p \<le> current_time"
  shows
    "(\<not> duplicate p \<and> (active_jobs sp (name p) \<noteq> 0 \<or> is_default sp (name p)) \<longrightarrow>
        fst (handle_printer cfg current_time lease_now p sp)
          = Some (p\<lparr>timeout := current_time + TIMEOUT_RETRY\<rparr>) \<and>
        queues (snd (handle_printer cfg current_time lease_now p sp)) = queues sp \<and>
        \<not> list_ex is_delete (new_calls sp (snd (handle_printer cfg current_time lease_now p sp)))) \<and>
     (\<not> duplicate p \<and> connect_ok sp \<and> active_jobs sp (name p) = 0 \<and> \<not> is_default sp (name p) \<longrightarrow>
        new_calls sp (snd (handle_printer cfg current_time lease_now p sp))
          = [Get_Jobs (name p), Get_Default, Delete_Printer (name p)] \<and>
        (delete_ok sp (name p) \<longrightarrow>
           fst (handle_printer cfg current_time lease_now p sp) = None \<and>
           \<not> queue_exists (snd (handle_printer cfg current_time lease_now p sp)) (name p)) \<and>
        (\<not> delete_ok sp (name p) \<longrightarrow>
           fst (handle_printer cfg current_time lease_now p sp)
             = Some (p\<lparr>timeout := current_time + TIMEOUT_RETRY\<rparr>) \<and>
           queues (snd (handle_printer cfg current_time lease_now p sp)) = queues sp)) \<and>
     (duplicate p \<longrightarrow> handle_printer cfg current_time lease_now p sp = (None, sp))"
proof -
  have h: "handle_printer cfg current_time lease_now p sp = case_disappeared current_time p sp"
    using assms(1) by (simp add: handle_printer_def)
  have nt: "\<not> timeout p > current_time" using assms(2) by simp
  have a: "\<not> duplicate p \<and> (active_jobs sp (name p) \<noteq> 0 \<or> is_default sp (name p)) \<longrightarrow>
        fst (case_disappeared current_time p sp)
          = Some (p\<lparr>timeout := current_time + TIMEOUT_RETRY\<rparr>) \<and>
        queues (snd (case_disappeared current_time p sp)) = queues sp \<and>
        \<not> list_ex is_delete (new_calls sp (snd (case_disappeared current_time p sp)))"
    using nt by (auto simp: case_disappeared_def Let_def send_def new_calls_def)
  have b: "\<not> duplicate p \<and> connect_ok sp \<and> active_jobs sp (name p) = 0 \<and>
           \<not> is_default sp (name p) \<longrightarrow>
        new_calls sp (snd (case_disappeared current_time p sp))
          = [Get_Jobs (name p), Get_Default, Delete_Printer (name p)] \<and>
        (delete_ok sp (name p) \<longrightarrow>
           fst (case_disappeared current_time p sp) = None \<and>
           \<not> queue_exists (snd (case_disappeared current_time p sp)) (name p)) \<and>
        (\<not> delete_ok sp (name p) \<longrightarrow>
           fst (case_disappeared current_time p sp)
             = Some (p\<lparr>timeout := current_time + TIMEOUT_RETRY\<rparr>) \<and>
           queues (snd (case_disappeared current_time p sp)) = queues sp)"
    using nt
    by (auto simp: case_disappeared_def Let_def send_def new_calls_def delete_printer_def
          queue_exists_def list_ex_iff)
  have c: "duplicate p \<longrightarrow> case_disappeared current_time p sp = (None, sp)"
    using nt by (simp add: case_disappeared_def)
  show ?thesis unfolding h using a b c by blast
qed

text \<open>
  The entry \<open>Lab\<close>, disappeared and due at 2000: with one active job it is kept for a
  retry at 2010 and its queue stays; with no job and no default the queue is deleted
  and the entry destroyed.
\<close>

theorem guarded_removal_witness:
  "status (ex_lab\<lparr>status := STATUS_DISAPPEARED, timeout := 1999\<rparr>) = STATUS_DISAPPEARED \<and>
   active_jobs ex_spooler_busy ''Lab'' = 1 \<and>
   fst (handle_printer ex_config 2000 2000
          (ex_lab\<lparr>status := STATUS_DISAPPEARED, timeout := 1999\<rparr>) ex_spooler_busy)
     = Some (ex_lab\<lparr>status := STATUS_DISAPPEARED, timeout := 2010\<rparr>) \<and>
   queues (snd (handle_printer ex_config 2000 2000
          (ex_lab\<lparr>status := STATUS_DISAPPEARED, timeout := 1999\<rparr>) ex_spooler_busy)) = [''Lab''] \<and>
   fst (handle_printer ex_config 2000 2000
          (ex_lab\<lparr>status := STATUS_DISAPPEARED, timeout := 1999\<rparr>) ex_spooler) = None \<and>
   new_calls ex_spooler (snd (handle_printer ex_config 2000 2000
          (ex_lab\<lparr>status := STATUS_DISAPPEARED, timeout := 1999\<rparr>) ex_spooler))
     = [Get_Jobs ''Lab'', Get_Default, Delete_Printer ''Lab'']"
proof -
  let ?p = "ex_lab\<lparr>status := STATUS_DISAPPEARED, timeout := 1999\<rparr>"
  have s: "status ?p = STATUS_DISAPPEARED" by simp
  have t: "timeout ?p \<le> 2000" by simp
  have n: "name ?p = ''Lab''" "\<not> duplicate ?p" by (simp_all add: ex_lab_def)
  have busy: "active_jobs ex_spooler_busy ''Lab'' = 1" "queues ex_spooler_busy = [''Lab'']"
    by (simp_all add: ex_spooler_busy_def ex_spooler_def)
  have idle: "connect_ok ex_spooler" "active_jobs ex_spooler ''Lab'' = 0"
    "\<not> is_default ex_spooler ''Lab''" "delete_ok ex_spooler ''Lab''"
    by (simp_all add: ex_spooler_def is_default_def)
  have r: "?p\<lparr>timeout := 2000 + TIMEOUT_RETRY\<rparr>
             = ex_lab\<lparr>status := STATUS_DISAPPEARED, timeout := 2010\<rparr>"
    by (simp add: TIMEOUT_RETRY_def)
  from guarded_removal[OF s t, of ex_spooler_busy ex_config 2000] n busy r
  have 1: "fst (handle_printer ex_config 2000 2000 ?p ex_spooler_busy)
             = Some (ex_lab\<lparr>status := STATUS_DISAPPEARED, timeout := 2010\<rparr>) \<and>
           queues (snd (handle_printer ex_config 2000 2000 ?p ex_spooler_busy)) = [''Lab'']"
    by simp
  from guarded_removal[OF s t, of ex_spooler ex_config 2000] n idle
  have 2: "fst (handle_printer ex_config 2000 2000 ?p ex_spooler) = None \<and>
           new_calls ex_spooler (snd (handle_printer ex_config 2000 2000 ?p ex_spooler))
             = [Get_Jobs ''Lab'', Get_Default, Delete_Printer ''Lab'']"
    by simp
  show ?thesis using s busy(1) 1 2 by simp
qed

lemma handle_printer_duplicate:
  "duplicate p \<Longrightarrow> snd (handle_printer cfg current_time lease_now p sp) = sp"
  by (cases "status p")
     (auto simp: handle_printer_def case_disappeared_def case_to_be_created_def)

lemma scan_printers_skip_duplicates:
  "snd (scan_printers cfg current_time lease_now reg sp)
     = snd (scan_printers cfg current_time lease_now (filter (\<lambda>p. \<not> duplicate p) reg) sp)"
proof (induction reg arbitrary: sp)
  case Nil
  show ?case by simp
next
  case (Cons p ps)
  show ?case
  proof (cases "duplicate p")
    case True
    then show ?thesis
      using Cons.IH[of sp]
      by (simp only: snd_scan_printers_Cons handle_printer_duplicate filter.simps if_False
            simp_thms)
  next
    case False
    then show ?thesis
      using Cons.IH by (simp only: snd_scan_printers_Cons filter.simps if_True simp_thms)
  qed
qed

lemma handle_printer_calls:
  "\<exists>cs. calls (snd (handle_printer cfg current_time lease_now p sp)) = calls sp @ cs \<and>
        (\<forall>c\<in>set cs. is_add_modify c \<longrightarrow> \<not> duplicate p \<and> provisions p c)"
  by (cases "status p")
     (auto simp: handle_printer_def case_disappeared_def case_to_be_created_def Let_def
        send_def delete_printer_def add_modify_printer_def split: option.splits)

lemma scan_printers_calls:
  "\<exists>cs. calls (snd (scan_printers cfg current_time lease_now reg sp)) = calls sp @ cs \<and>
        (\<forall>c\<in>set cs. is_add_modify c \<longrightarrow> (\<exists>p\<in>set reg. \<not> duplicate p \<and> provisions p c))"
proof (induction reg arbitrary: sp)
  case Nil
  show ?case by simp
next
  case (Cons p ps)
  obtain cs1 where 1:
    "calls (snd (handle_printer cfg current_time lease_now p sp)) = calls sp @ cs1"
    "\<forall>c\<in>set cs1. is_add_modify c \<longrightarrow> \<not> duplicate p \<and> provisions p c"
    using handle_printer_calls[of cfg current_time lease_now p sp] by blast
  obtain cs2 where 2:
    "calls (snd (scan_printers cfg current_time lease_now ps
        (snd (handle_printer cfg current_time lease_now p sp))))
       = calls (snd (handle_printer cfg current_time lease_now p sp)) @ cs2"
    "\<forall>c\<in>set cs2. is_add_modify c \<longrightarrow> (\<exists>q\<in>set ps. \<not> duplicate q \<and> provisions q c)"
    using Cons.IH[of "snd (handle_printer cfg current_time lease_now p sp)"] by blast
  have "calls (snd (scan_printers cfg current_time lease_now (p # ps) sp))
          = calls sp @ (cs1 @ cs2)"
    using 1(1) 2(1) by (simp only: snd_scan_printers_Cons append_assoc)
  moreover have "\<forall>c\<in>set (cs1 @ cs2). is_add_modify c \<longrightarrow>
      (\<exists>q\<in>set (p # ps). \<not> duplicate q \<and> provisions q c)"
    using 1(2) 2(2) by auto
  ultimately show ?case by blast
qed

text \<open>
  C5. Duplicates are never provisioned. Examining a duplicate entry, in any status,
  leaves the spooler as it was, so no request at all is sent for it; in
  \<open>STATUS_TO_BE_CREATED\<close> and \<open>STATUS_BROWSE_PACKET_RECEIVED\<close> the entry is kept with the
  deadline Never. For a whole pass: every create-or-modify request the pass sends is
  the one for a non-duplicate entry of the registry, and the spooler ends as it would
  had the pass run over the registry without its duplicates.
\<close>

theorem duplicates_never_provisioned:
  "(duplicate p \<longrightarrow>
      snd (handle_printer cfg current_time lease_now p sp) = sp \<and>
      (status p = STATUS_TO_BE_CREATED \<or> status p = STATUS_BROWSE_PACKET_RECEIVED \<longrightarrow>
         handle_printer cfg current_time lease_now p sp = (Some (p\<lparr>timeout := -1\<rparr>), sp))) \<and>
   (\<forall>c\<in>set (new_calls sp (snd (scan_printers cfg current_time lease_now reg sp))).
      is_add_modify c \<longrightarrow> (\<exists>q\<in>set reg. \<not> duplicate q \<and> provisions q c)) \<and>
   snd (scan_printers cfg current_time lease_now reg sp)
     = snd (scan_printers cfg current_time lease_now (filter (\<lambda>q. \<not> duplicate q) reg) sp)"
proof -
  have 1: "duplicate p \<longrightarrow> snd (handle_printer cfg current_time lease_now p sp) = sp"
    using handle_printer_duplicate by blast
  have 2: "duplicate p \<longrightarrow>
      (status p = STATUS_TO_BE_CREATED \<or> status p = STATUS_BROWSE_PACKET_RECEIVED \<longrightarrow>
         handle_printer cfg current_time lease_now p sp = (Some (p\<lparr>timeout := -1\<rparr>), sp))"
    by (auto simp: handle_printer_def case_to_be_created_def)
  obtain cs where cs:
    "calls (snd (scan_printers cfg current_time lease_now reg sp)) = calls sp @ cs"
    "\<forall>c\<in>set cs. is_add_modify c \<longrightarrow> (\<exists>q\<in>set reg. \<not> duplicate q \<and> provisions q c)"
    using scan_printers_calls[of cfg current_time lease_now reg sp] by blast
  have "new_calls sp (snd (scan_printers cfg current_time lease_now reg sp)) = cs"
    using cs(1) by (simp add: new_calls_def)
  with cs(2) have 3:
    "\<forall>c\<in>set (new_calls sp (snd (scan_printers cfg current_time lease_now reg sp))).
      is_add_modify c \<longrightarrow> (\<exists>q\<in>set reg. \<not> duplicate q \<and> provisions q c)"
    by simp
  show ?thesis
    using 1 2 3 scan_printers_skip_duplicates[of cfg current_time lease_now reg sp] by blast
qed

text \<open>
  The duplicate entry \<open>ex_backup\<close>, due at 1999, examined at 2000 with its primary in
  the same registry: it gets the deadline Never, and the pass sends nothing.
\<close>

theorem duplicates_never_provisioned_witness:
  "duplicate ex_backup \<and> status ex_backup = STATUS_TO_BE_CREATED \<and>
   handle_printer ex_config 2000 2000 ex_backup ex_spooler
     = (Some (ex_backup\<lparr>timeout := -1\<rparr>), ex_spooler) \<and>
   new_calls ex_spooler (snd (scan_printers ex_config 2000 2000 [ex_primary, ex_backup] ex_spooler))
     = [] \<and>
   snd (scan_printers ex_config 2000 2000 [ex_primary, ex_backup] ex_spooler)
     = snd (scan_printers ex_config 2000 2000 [ex_primary] ex_spooler)"
proof -
  have d: "duplicate ex_backup" "status ex_backup = STATUS_TO_BE_CREATED"
    "\<not> duplicate ex_primary"
    by (simp_all add: ex_backup_def ex_primary_def)
  have n: "new_calls ex_spooler
             (snd (scan_printers ex_config 2000 2000 [ex_primary, ex_backup] ex_spooler)) = []"
    by (simp add: new_calls_def handle_printer_def case_to_be_created_def ex_primary_def
          ex_backup_def)
  from duplicates_never_provisioned[of ex_backup ex_config 2000 2000 ex_spooler
         "[ex_primary, ex_backup]"] d n
  show ?thesis by simp
qed

section \<open>Shutdown\<close>

lemma same_answers_refl: "same_answers sp sp"
  by (simp add: same_answers_def)

lemma removal_blocked_cong:
  "same_answers sp sp1 \<Longrightarrow> removal_blocked sp1 p = removal_blocked sp p"
  by (simp add: same_answers_def removal_blocked_def is_default_def)

text \<open>What the pass does with an entry that the shutdown has just marked.\<close>

lemma handle_marked:
  assumes "t \<le> current_time"
  shows "handle_printer cfg current_time lease_now (mark_disappeared t p) sp =
     (if duplicate p then (None, sp)
      else if \<not> connect_ok sp
      then (Some ((mark_disappeared t p)\<lparr>timeout := current_time + TIMEOUT_RETRY\<rparr>), sp)
      else if active_jobs sp (name p) \<noteq> 0
      then (Some ((mark_disappeared t p)\<lparr>timeout := current_time + TIMEOUT_RETRY\<rparr>),
            send (Get_Jobs (name p)) sp)
      else if is_default sp (name p)
      then (Some ((mark_disappeared t p)\<lparr>timeout := current_time + TIMEOUT_RETRY\<rparr>),
            send Get_Default (send (Get_Jobs (name p)) sp))
      else if \<not> delete_ok sp (name p)
      then (Some ((mark_disappeared t p)\<lparr>timeout := current_time + TIMEOUT_RETRY\<rparr>),
            delete_printer (name p) (send Get_Default (send (Get_Jobs (name p)) sp)))
      else (None, delete_printer (name p) (send Get_Default (send (Get_Jobs (name p)) sp))))"
  using assms
  by (simp add: handle_printer_def mark_disappeared_def case_disappeared_def Let_def
      TIMEOUT_IMMEDIATELY_def)

lemma handle_marked_fst:
  assumes "t \<le> current_time"
  shows "fst (handle_printer cfg current_time lease_now (mark_disappeared t p) sp) =
     (if \<not> duplicate p \<and> removal_blocked sp p
      then Some (p\<lparr>status := STATUS_DISAPPEARED, timeout := current_time + TIMEOUT_RETRY\<rparr>)
      else None)"
  by (subst handle_marked[OF assms]) (simp add: removal_blocked_def mark_disappeared_def)

lemma handle_marked_snd:
  assumes "t \<le> current_time"
  shows "same_answers sp (snd (handle_printer cfg current_time lease_now (mark_disappeared t p) sp)) \<and>
     queues (snd (handle_printer cfg current_time lease_now (mark_disappeared t p) sp)) =
       (if \<not> duplicate p \<and> \<not> removal_blocked sp p
        then filter (\<lambda>q. strcasecmp q (name p) \<noteq> 0) (queues sp) else queues sp)"
  by (subst (1 2) handle_marked[OF assms])
     (simp add: removal_blocked_def same_answers_def send_def delete_printer_def Let_def)

lemma scan_marked:
  assumes "t \<le> current_time"
  shows "same_answers sp0 sp \<Longrightarrow>
     fst (scan_printers cfg current_time lease_now (map (mark_disappeared t) reg) sp)
       = map (\<lambda>p. p\<lparr>status := STATUS_DISAPPEARED, timeout := current_time + TIMEOUT_RETRY\<rparr>)
           (filter (\<lambda>p. \<not> duplicate p \<and> removal_blocked sp0 p) reg) \<and>
     queues (snd (scan_printers cfg current_time lease_now (map (mark_disappeared t) reg) sp))
       = filter (\<lambda>q. \<not> list_ex (\<lambda>p. \<not> duplicate p \<and> \<not> removal_blocked sp0 p \<and>
                                      strcasecmp q (name p) = 0) reg) (queues sp)"
proof (induction reg arbitrary: sp)
  case Nil
  show ?case by simp
next
  case (Cons p ps)
  let ?sp1 = "snd (handle_printer cfg current_time lease_now (mark_disappeared t p) sp)"
  have sa: "same_answers sp0 ?sp1"
    using handle_marked_snd[OF assms, of sp cfg lease_now p] Cons.prems
    by (simp add: same_answers_def)
  have rb: "removal_blocked sp p = removal_blocked sp0 p"
    using removal_blocked_cong[OF Cons.prems] .
  have q1: "queues ?sp1 = (if \<not> duplicate p \<and> \<not> removal_blocked sp0 p
        then filter (\<lambda>q. strcasecmp q (name p) \<noteq> 0) (queues sp) else queues sp)"
    using handle_marked_snd[OF assms, of sp cfg lease_now p] rb by simp
  have f1: "fst (handle_printer cfg current_time lease_now (mark_disappeared t p) sp) =
     (if \<not> duplicate p \<and> removal_blocked sp0 p
      then Some (p\<lparr>status := STATUS_DISAPPEARED, timeout := current_time + TIMEOUT_RETRY\<rparr>)
      else None)"
    using handle_marked_fst[OF assms, of cfg lease_now p sp] rb by simp
  note ih = Cons.IH[OF sa]
  have A: "fst (scan_printers cfg current_time lease_now (map (mark_disappeared t) (p # ps)) sp)
       = map (\<lambda>p. p\<lparr>status := STATUS_DISAPPEARED, timeout := current_time + TIMEOUT_RETRY\<rparr>)
           (filter (\<lambda>p. \<not> duplicate p \<and> removal_blocked sp0 p) (p # ps))"
    using ih f1 by (simp only: list.map fst_scan_printers_Cons) simp
  have B: "queues (snd (scan_printers cfg current_time lease_now
                          (map (mark_disappeared t) (p # ps)) sp))
       = filter (\<lambda>q. \<not> list_ex (\<lambda>p. \<not> duplicate p \<and> \<not> removal_blocked sp0 p \<and>
                                      strcasecmp q (name p) = 0) (p # ps)) (queues sp)"
    using ih q1 by (simp only: list.map snd_scan_printers_Cons) (auto intro: filter_cong)
  show ?case using A B by blast
qed

lemma remote_printers_recheck_timer:
  "remote_printers (recheck_timer s now) = remote_printers s"
  by (simp add: recheck_timer_def Let_def split: option.splits)

text \<open>
  C3, as the code has it. The claim says the final pass deletes every provisioned queue
  whatever the spooler answers. The final pass is the ordinary pass, with its guards
  (C4): the theorem below says which entries and queues are left. With the clock not
  running backwards (\<open>t \<le> current_time\<close>), after \<open>main\<close>'s shutdown sequence the
  registry holds exactly the non-duplicate entries whose removal a guard blocked, each
  in \<open>STATUS_DISAPPEARED\<close> with the deadline \<open>current_time + TIMEOUT_RETRY\<close>, and the
  spooler has lost exactly the queues of the other non-duplicate entries. So the
  registry and the set of provisioned queues end empty when no guard blocks a removal,
  and only then.
\<close>

theorem shutdown_cleanup:
  assumes "t \<le> current_time"
  shows
    "remote_printers (fst (main_shutdown cfg st sp t current_time lease_now now))
       = map (\<lambda>p. p\<lparr>status := STATUS_DISAPPEARED, timeout := current_time + TIMEOUT_RETRY\<rparr>)
           (filter (\<lambda>p. \<not> duplicate p \<and> removal_blocked sp p) (remote_printers st)) \<and>
     queues (snd (main_shutdown cfg st sp t current_time lease_now now))
       = filter (\<lambda>q. \<not> list_ex (\<lambda>p. \<not> duplicate p \<and> \<not> removal_blocked sp p \<and>
                                      strcasecmp q (name p) = 0) (remote_printers st)) (queues sp)"
  using scan_marked[OF assms same_answers_refl, of cfg lease_now "remote_printers st" sp]
  by (simp add: main_shutdown_def handle_cups_queues_def case_prod_beta
        remote_printers_recheck_timer)

text \<open>
  Shutdown at 2000 with the entry \<open>Lab\<close> and an idle spooler: no guard blocks, the
  registry and the spooler's queue list end empty.
\<close>

theorem shutdown_cleanup_witness:
  "\<not> removal_blocked ex_spooler ex_lab \<and>
   remote_printers (fst (main_shutdown ex_config ex_daemon ex_spooler 2000 2000 2000 2000)) = [] \<and>
   queues (snd (main_shutdown ex_config ex_daemon ex_spooler 2000 2000 2000 2000)) = []"
proof -
  have t: "(2000::int) \<le> 2000" by simp
  have nb: "\<not> removal_blocked ex_spooler ex_lab"
    by (simp add: removal_blocked_def ex_spooler_def is_default_def)
  have nd: "\<not> duplicate ex_lab" "name ex_lab = ''Lab''" by (simp_all add: ex_lab_def)
  have same: "strcasecmp ''Lab'' ''Lab'' = 0" by code_simp
  have st: "remote_printers ex_daemon = [ex_lab]" "queues ex_spooler = [''Lab'']"
    by (simp_all add: ex_daemon_def ex_spooler_def)
  from shutdown_cleanup[OF t, of ex_config ex_daemon ex_spooler 2000 2000] nb nd same st
  show ?thesis by simp
qed

text \<open>
  The claim fails when the spooler reports an active job: the entry \<open>Lab\<close> was
  provisioned (it is confirmed and its queue exists); after the shutdown sequence the
  only request sent is the job query, the queue \<open>Lab\<close> is still there and the entry
  is still in the registry.
\<close>

theorem shutdown_cleanup_counterexample:
  "status ex_lab = STATUS_CONFIRMED \<and> queues ex_spooler_busy = [''Lab''] \<and>
   calls (snd (main_shutdown ex_config ex_daemon ex_spooler_busy 2000 2000 2000 2000))
     = [Get_Jobs ''Lab''] \<and>
   queues (snd (main_shutdown ex_config ex_daemon ex_spooler_busy 2000 2000 2000 2000))
     = [''Lab''] \<and>
   remote_printers (fst (main_shutdown ex_config ex_daemon ex_spooler_busy 2000 2000 2000 2000))
     = [ex_lab\<lparr>status := STATUS_DISAPPEARED, timeout := 2010\<rparr>]"
  by code_simp

section \<open>The single timer\<close>

lemma recheck_loop_min:
  "t = -1 \<or> 0 \<le> t \<Longrightarrow>
   (let r = recheck_loop now ps t; ds = (if t = -1 then [] else [t]) @ delays now ps in
      (ds = [] \<longrightarrow> r = -1) \<and> (ds \<noteq> [] \<longrightarrow> r \<in> set ds \<and> (\<forall>x\<in>set ds. r \<le> x)))"
proof (induction ps arbitrary: t)
  case Nil
  then show ?case by (auto simp: delays_def)
next
  case (Cons p ps)
  have nonneg: "\<forall>x\<in>set (delays now ps). 0 \<le> x" by (auto simp: delays_def)
  show ?case
  proof (cases "timeout p = -1")
    case True
    then show ?thesis using Cons.IH[OF Cons.prems] by (simp add: delays_def)
  next
    case False
    note nn = False
    show ?thesis
    proof (cases "now > timeout p")
      case True
      then show ?thesis using nn nonneg Cons.prems by (auto simp: delays_def Let_def)
    next
      case False
      have d0: "0 \<le> timeout p - now" using False by simp
      show ?thesis
      proof (cases "t = -1 \<or> timeout p - now < t")
        case True
        have "timeout p - now = -1 \<or> 0 \<le> timeout p - now" using d0 by simp
        from Cons.IH[OF this] True nn False d0 show ?thesis
          by (auto simp: delays_def Let_def max_def split: if_splits)
      next
        case False
        from Cons.IH[OF Cons.prems] False nn \<open>\<not> now > timeout p\<close> d0 show ?thesis
          by (auto simp: delays_def Let_def max_def split: if_splits)
      qed
    qed
  qed
qed

text \<open>The loop of \<open>recheck_timer\<close> computes the least delay, or \<open>-1\<close> when there is none.\<close>

lemma recheck_loop_Min:
  "recheck_loop now reg (-1) = (if delays now reg = [] then -1 else Min (set (delays now reg)))"
proof (cases "delays now reg = []")
  case True
  then show ?thesis using recheck_loop_min[of "-1" now reg] by (simp add: Let_def)
next
  case False
  have "recheck_loop now reg (-1) \<in> set (delays now reg) \<and>
        (\<forall>x\<in>set (delays now reg). recheck_loop now reg (-1) \<le> x)"
    using recheck_loop_min[of "-1" now reg] False by (simp add: Let_def)
  then have "Min (set (delays now reg)) = recheck_loop now reg (-1)"
    by (intro Min_eqI) auto
  then show ?thesis using False by simp
qed

lemma delays_range:
  assumes "\<forall>p\<in>set reg. timeout p \<noteq> -1 \<longrightarrow> timeout p - now < 4294967296"
      and "delays now reg \<noteq> []"
  shows "0 \<le> Min (set (delays now reg)) \<and> Min (set (delays now reg)) < 4294967296"
proof -
  have fin: "finite (set (delays now reg))" and ne: "set (delays now reg) \<noteq> {}"
    using assms(2) by auto
  have "\<forall>x\<in>set (delays now reg). 0 \<le> x \<and> x < 4294967296"
    using assms(1) by (auto simp: delays_def)
  moreover have "Min (set (delays now reg)) \<in> set (delays now reg)"
    using Min_in[OF fin ne] .
  ultimately show ?thesis by blast
qed

lemma recheck_timer_matches:
  assumes "gmainloop st"
      and "\<forall>s\<in>set (timer_sources st). queues_timer_id st = Some (fst s)"
      and "\<forall>p\<in>set (remote_printers st). timeout p \<noteq> -1 \<longrightarrow> timeout p - now < 4294967296"
  shows "timer_matches (recheck_timer st now) (next_source_id st) now"
proof -
  have rm: "(case queues_timer_id st of None \<Rightarrow> timer_sources st
             | Some i \<Rightarrow> g_source_remove i (timer_sources st)) = []"
  proof (cases "queues_timer_id st")
    case None
    then show ?thesis using assms(2) by (cases "timer_sources st") auto
  next
    case (Some i)
    then show ?thesis using assms(2) by (auto simp: g_source_remove_def filter_empty_conv)
  qed
  show ?thesis
  proof (cases "delays now (remote_printers st) = []")
    case True
    then show ?thesis using assms(1) rm
      by (auto simp: recheck_timer_def recheck_loop_Min timer_matches_def Let_def
          split: option.splits)
  next
    case False
    have r: "0 \<le> Min (set (delays now (remote_printers st)))"
            "Min (set (delays now (remote_printers st))) < 4294967296"
      using delays_range[OF assms(3) False] by auto
    then have g: "guint (Min (set (delays now (remote_printers st))))
                  = nat (Min (set (delays now (remote_printers st))))"
      by (simp add: guint_def)
    have ne: "Min (set (delays now (remote_printers st))) \<noteq> -1" using r by simp
    show ?thesis using assms(1) rm False g ne
      by (auto simp: recheck_timer_def recheck_loop_Min timer_matches_def Let_def
          split: option.splits)
  qed
qed

lemma recheck_timer_no_loop: "\<not> gmainloop st \<Longrightarrow> recheck_timer st now = st"
  by (simp add: recheck_timer_def)

lemma timer_fields_recheck_timer:
  "\<not> gmainloop st \<Longrightarrow>
   timer_sources (recheck_timer (st\<lparr>remote_printers := reg1\<rparr>) now) = timer_sources st \<and>
   queues_timer_id (recheck_timer (st\<lparr>remote_printers := reg1\<rparr>) now) = queues_timer_id st"
  by (simp add: recheck_timer_def)

subsection \<open>Every callback but one ends with \<open>recheck_timer\<close>\<close>

lemma rechecked_same: "rechecked st now (recheck_timer st now)"
proof -
  have "recheck_timer st now = recheck_timer (st\<lparr>remote_printers := remote_printers st\<rparr>) now"
    by simp
  then show ?thesis unfolding rechecked_def by blast
qed

lemma rechecked_upd: "rechecked st now (recheck_timer (st\<lparr>remote_printers := reg1\<rparr>) now)"
  unfolding rechecked_def by blast

lemma resolve_callback_shape:
  "resolve_callback cfg net lps st t now e n ty dmn host_name port txt = Inr st1 \<Longrightarrow>
   rechecked st now st1"
  by (auto simp: resolve_callback_def bind_err_def Let_def rechecked_same rechecked_upd
      split: AvahiResolverEvent.splits option.splits sum.splits if_splits)

lemma browse_callback_shape:
  "browse_callback st t now e local_flag n ty dmn = st \<or>
   rechecked st now (browse_callback st t now e local_flag n ty dmn)"
  by (auto simp: browse_callback_def rechecked_upd split: option.splits)

lemma process_browse_data_shape:
  "process_browse_data cfg net lps netifs st t lease_now now del_flag h port resource info
     = Inr st1 \<Longrightarrow> rechecked st now st1"
  by (auto simp: process_browse_data_def bind_err_def rechecked_same rechecked_upd
      split: sum.splits if_splits)

lemma browse_poll_shape:
  "browse_poll cfg net lps netifs st t lease_now now conn_ok get_printers response printers
     = Inr st1 \<Longrightarrow>
   st1 = st \<or> (if conn_ok \<and> \<not> get_printers
                then \<exists>reg1. st1 = st\<lparr>remote_printers := reg1\<rparr>
                else rechecked st now st1)"
  by (auto simp: browse_poll_def browse_poll_get_printers_def bind_err_def rechecked_upd
      split: sum.splits if_splits option.splits)

lemma handle_cups_queues_shape:
  "rechecked st now (fst (handle_cups_queues cfg st sp t lease_now now))"
  by (simp add: handle_cups_queues_def case_prod_beta rechecked_upd)

lemma avahi_browser_shutdown_shape:
  "rechecked st now (fst (avahi_browser_shutdown cfg st sp t current_time lease_now now))"
  by (simp add: avahi_browser_shutdown_def handle_cups_queues_def case_prod_beta rechecked_upd)

text \<open>
  What an event leaves of the daemon's state: nothing is changed, or the registry is
  changed and \<open>recheck_timer\<close> has run on it; for the poll that announces its last
  list again, the registry is changed and nothing else.
\<close>

lemma handle_event_shape:
  assumes "handle_event cfg net lps netifs t lease_now now ev (st, sp) = Inr (st1, sp1)"
  shows "(ev \<noteq> Queues_timer \<and> st1 = st) \<or>
         (if keep_alive ev then \<exists>reg1. st1 = st\<lparr>remote_printers := reg1\<rparr>
          else rechecked st now st1)"
proof (cases ev)
  case (Resolver e n ty dmn host_name port tx)
  then show ?thesis using assms resolve_callback_shape
    by (auto simp: bind_err_def split: sum.splits)
next
  case (Browser e local_flag n ty dmn)
  then show ?thesis using assms browse_callback_shape[of st t now e local_flag n ty dmn]
    by auto
next
  case Avahi_disconnected
  then show ?thesis using assms avahi_browser_shutdown_shape[of st now cfg sp t t lease_now]
    by auto
next
  case (Browse_packet del_flag h port resource info)
  then show ?thesis using assms process_browse_data_shape
    by (auto simp: bind_err_def split: sum.splits)
next
  case (Browse_poll conn_ok get_printers response printers)
  then show ?thesis using assms
      browse_poll_shape[of cfg net lps netifs st t lease_now now conn_ok get_printers
        response printers]
    by (auto simp: bind_err_def split: sum.splits if_splits)
next
  case Queues_timer
  then show ?thesis using assms handle_cups_queues_shape[of st now cfg sp t lease_now]
    by auto
qed

lemma rechecked_matches:
  assumes "rechecked st now st1" "gmainloop st" "own_timer_only st"
      and "in_range now (remote_printers st1)"
  shows "timer_matches st1 (next_source_id st) now"
proof -
  obtain reg1 where s: "st1 = recheck_timer (st\<lparr>remote_printers := reg1\<rparr>) now"
    using assms(1) unfolding rechecked_def by blast
  let ?st = "st\<lparr>remote_printers := reg1\<rparr>"
  have r: "remote_printers st1 = reg1" using s by (simp add: remote_printers_recheck_timer)
  have a: "gmainloop ?st" using assms(2) by simp
  have b: "\<forall>s\<in>set (timer_sources ?st). queues_timer_id ?st = Some (fst s)"
    using assms(3) by (simp add: own_timer_only_def list_all_iff)
  have c: "\<forall>p\<in>set (remote_printers ?st). timeout p \<noteq> -1 \<longrightarrow> timeout p - now < 4294967296"
    using assms(4) r by (auto simp: in_range_def list_all_iff)
  show ?thesis using recheck_timer_matches[OF a b c] s by simp
qed

lemma recheck_timer_own:
  assumes "own_timer_only st"
  shows "own_timer_only (recheck_timer (st\<lparr>remote_printers := reg1\<rparr>) now)"
proof -
  have rm: "(case queues_timer_id st of None \<Rightarrow> timer_sources st
             | Some i \<Rightarrow> g_source_remove i (timer_sources st)) = []"
  proof (cases "queues_timer_id st")
    case None
    then show ?thesis using assms
      by (cases "timer_sources st") (auto simp: own_timer_only_def)
  next
    case (Some i)
    then show ?thesis using assms
      by (auto simp: own_timer_only_def list_all_iff g_source_remove_def filter_empty_conv)
  qed
  show ?thesis using assms rm
    by (auto simp: recheck_timer_def own_timer_only_def Let_def split: option.splits)
qed

lemma rechecked_own:
  assumes "rechecked st now st1" "own_timer_only st"
  shows "own_timer_only st1"
  using assms recheck_timer_own unfolding rechecked_def by blast

lemma event_keeps_own_timer:
  assumes h: "handle_event cfg net lps netifs t lease_now now ev (st, sp) = Inr (st1, sp1)"
      and o: "own_timer_only st"
  shows "own_timer_only st1"
proof -
  note sh = handle_event_shape[OF h]
  have k: "own_timer_only (st\<lparr>remote_printers := reg1\<rparr>)" for reg1
    using o by (simp add: own_timer_only_def)
  show ?thesis using sh o k rechecked_own by (auto split: if_splits)
qed

lemma rechecked_no_loop:
  assumes "rechecked st now st1" "\<not> gmainloop st"
  shows "timer_sources st1 = timer_sources st \<and> queues_timer_id st1 = queues_timer_id st"
  using assms timer_fields_recheck_timer unfolding rechecked_def by blast

text \<open>
  C7, as the code has it. The recompute step is \<open>recheck_timer\<close>. It begins with
  \<open>if (!gmainloop) return;\<close>, so the claim holds only while the main loop exists; and
  the interval goes to GLib as a \<open>guint\<close>, so the deadlines are taken to lie less than
  \<open>2^32\<close> seconds after \<open>now\<close> (\<open>in_range\<close>). With the main loop in place and no
  pending source but the one \<open>queues_timer_id\<close> names: after \<open>recheck_timer\<close>, after
  every reconciliation pass, and after every event handled by \<open>resolve_callback\<close>,
  \<open>browse_callback\<close>, \<open>avahi_browser_shutdown\<close>, \<open>process_browse_data\<close> or a poll
  that fetches the list of queues, either the event has changed nothing at all, or there is no pending source
  when every deadline is Never or the registry is empty, and otherwise exactly one,
  whose interval is the least of \<open>max(0, deadline - now)\<close>. Without the main loop
  \<open>recheck_timer\<close> changes nothing, and no event touches the timer. The condition on
  the pending sources is kept by every event. (The poll that announces its last list
  again is the one event left out of the first part: see \<open>keep_alive_leaves_timer\<close>
  below.)
\<close>

theorem single_timer:
  "(gmainloop st \<and> own_timer_only st \<and> in_range now (remote_printers st) \<longrightarrow>
      timer_matches (recheck_timer st now) (next_source_id st) now) \<and>
   (\<not> gmainloop st \<longrightarrow> recheck_timer st now = st) \<and>
   (handle_event cfg net lps netifs t lease_now now ev (st, sp) = Inr (st1, sp1) \<longrightarrow>
      (gmainloop st \<and> own_timer_only st \<and> in_range now (remote_printers st1) \<and>
       \<not> keep_alive ev \<longrightarrow>
         (ev \<noteq> Queues_timer \<and> st1 = st) \<or> timer_matches st1 (next_source_id st) now) \<and>
      (\<not> gmainloop st \<longrightarrow>
         timer_sources st1 = timer_sources st \<and> queues_timer_id st1 = queues_timer_id st) \<and>
      (own_timer_only st \<longrightarrow> own_timer_only st1))"
proof -
  have A: "gmainloop st \<and> own_timer_only st \<and> in_range now (remote_printers st) \<longrightarrow>
      timer_matches (recheck_timer st now) (next_source_id st) now"
  proof (intro impI, elim conjE)
    assume g: "gmainloop st" and o: "own_timer_only st" and i: "in_range now (remote_printers st)"
    have "in_range now (remote_printers (recheck_timer st now))"
      using i by (simp add: remote_printers_recheck_timer)
    from rechecked_matches[OF rechecked_same g o this] show
      "timer_matches (recheck_timer st now) (next_source_id st) now" .
  qed
  have B: "\<not> gmainloop st \<longrightarrow> recheck_timer st now = st"
    by (simp add: recheck_timer_no_loop)
  have C: "(gmainloop st \<and> own_timer_only st \<and> in_range now (remote_printers st1) \<and>
       \<not> keep_alive ev \<longrightarrow>
         (ev \<noteq> Queues_timer \<and> st1 = st) \<or> timer_matches st1 (next_source_id st) now) \<and>
      (\<not> gmainloop st \<longrightarrow>
         timer_sources st1 = timer_sources st \<and> queues_timer_id st1 = queues_timer_id st) \<and>
      (own_timer_only st \<longrightarrow> own_timer_only st1)"
    if h: "handle_event cfg net lps netifs t lease_now now ev (st, sp) = Inr (st1, sp1)"
  proof -
    note sh = handle_event_shape[OF h]
    have 1: "gmainloop st \<and> own_timer_only st \<and> in_range now (remote_printers st1) \<and>
       \<not> keep_alive ev \<longrightarrow>
         (ev \<noteq> Queues_timer \<and> st1 = st) \<or> timer_matches st1 (next_source_id st) now"
      using sh rechecked_matches by auto
    have 2: "\<not> gmainloop st \<longrightarrow>
         timer_sources st1 = timer_sources st \<and> queues_timer_id st1 = queues_timer_id st"
      using sh rechecked_no_loop by (auto split: if_splits)
    have 3: "own_timer_only st \<longrightarrow> own_timer_only st1"
      using event_keeps_own_timer[OF h] by blast
    show ?thesis using 1 2 3 by blast
  qed
  show ?thesis using A B C by blast
qed

text \<open>
  A running daemon at time 1000: the entry \<open>Lab\<close> has no deadline, \<open>Office\<close> is due
  at 1010, and source 7 is pending with the interval 10. The DNS-SD browser reports
  that the service of \<open>Lab\<close> is gone; the entry gets the deadline 999, and
  \<open>browse_callback\<close> leaves the single source 8 with the interval 0.
\<close>

theorem single_timer_witness:
  "gmainloop ex_daemon_running \<and> own_timer_only ex_daemon_running \<and>
   timer_sources ex_daemon_running = [(7, 10)] \<and>
   handle_event ex_config ex_network [] [] 1000 1000 1000
     (Browser AVAHI_BROWSER_REMOVE False ''Lab @ srv'' ''_ipp._tcp'' ''local'')
     (ex_daemon_running, ex_spooler) = Inr (ex_after_withdrawal, ex_spooler) \<and>
   in_range 1000 (remote_printers ex_after_withdrawal) \<and>
   delays 1000 (remote_printers ex_after_withdrawal) = [0, 10] \<and>
   timer_sources ex_after_withdrawal = [(8, 0)] \<and>
   queues_timer_id ex_after_withdrawal = Some 8"
proof -
  let ?ev = "Browser AVAHI_BROWSER_REMOVE False ''Lab @ srv'' ''_ipp._tcp'' ''local''"
  have g: "gmainloop ex_daemon_running" by (simp add: ex_daemon_running_def)
  have o: "own_timer_only ex_daemon_running" by code_simp
  have ts: "timer_sources ex_daemon_running = [(7, 10)]"
    "next_source_id ex_daemon_running = 8"
    by (simp_all add: ex_daemon_running_def)
  have bc: "browse_callback ex_daemon_running 1000 1000 AVAHI_BROWSER_REMOVE False
              ''Lab @ srv'' ''_ipp._tcp'' ''local'' = ex_after_withdrawal"
    by code_simp
  have h: "handle_event ex_config ex_network [] [] 1000 1000 1000 ?ev
             (ex_daemon_running, ex_spooler) = Inr (ex_after_withdrawal, ex_spooler)"
    by (simp add: bc)
  have r: "in_range 1000 (remote_printers ex_after_withdrawal)" by code_simp
  have d: "delays 1000 (remote_printers ex_after_withdrawal) = [0, 10]" by code_simp
  have ne: "ex_after_withdrawal \<noteq> ex_daemon_running" by code_simp
  have k: "\<not> keep_alive ?ev" by simp
  from single_timer[where st = ex_daemon_running and now = 1000 and cfg = ex_config
         and net = ex_network and lps = "[]" and netifs = "[]" and t = 1000
         and lease_now = 1000 and ev = ?ev and sp = ex_spooler
         and ?st1.0 = ex_after_withdrawal and ?sp1.0 = ex_spooler] g o h r k ne
  have "timer_matches ex_after_withdrawal (next_source_id ex_daemon_running) 1000"
    by blast
  then have "timer_sources ex_after_withdrawal = [(8, 0)] \<and>
             queues_timer_id ex_after_withdrawal = Some 8"
    using d ts(2) by (simp add: timer_matches_def)
  then show ?thesis using g o ts(1) h r d by simp
qed

text \<open>
  The claim fails for the pass at shutdown: \<open>gmainloop\<close> is NULL, the spooler reports
  an active job, the entry \<open>Lab\<close> leaves the pass with the deadline 2010, ten seconds
  after \<open>now\<close>, and no timer is armed.
\<close>

theorem single_timer_counterexample:
  "\<not> gmainloop ex_daemon \<and>
   delays 2000 (remote_printers
      (fst (main_shutdown ex_config ex_daemon ex_spooler_busy 2000 2000 2000 2000))) = [10] \<and>
   timer_sources (fst (main_shutdown ex_config ex_daemon ex_spooler_busy 2000 2000 2000 2000)) = [] \<and>
   queues_timer_id (fst (main_shutdown ex_config ex_daemon ex_spooler_busy 2000 2000 2000 2000))
     = None"
  by code_simp

text \<open>
  The one callback that sets deadlines and does not call \<open>recheck_timer\<close>. The
  running daemon polls a server at time 1005 and, with no change notified, announces
  the list of its last fetch again: the entry \<open>Office\<close> gets a lease until 1305, the
  least delay is now 300, and the pending source is still the one armed for 10
  seconds. The same list fetched anew goes through \<open>browse_poll_get_printers\<close>, which
  ends with \<open>recheck_timer\<close> and leaves one source with the interval 300.
\<close>

lemma keep_alive_leaves_timer:
  "keep_alive (Browse_poll True False None ex_polled) \<and>
   browse_poll ex_config ex_network ex_local_office [] ex_daemon_running 1005 1005 1005
     True False None ex_polled
     = Inr (ex_daemon_running\<lparr>remote_printers := [ex_lab, ex_office_leased]\<rparr>) \<and>
   delays 1005 [ex_lab, ex_office_leased] = [300] \<and>
   timer_sources (ex_daemon_running\<lparr>remote_printers := [ex_lab, ex_office_leased]\<rparr>)
     = [(7, 10)] \<and>
   browse_poll ex_config ex_network ex_local_office [] ex_daemon_running 1005 1005 1005
     True True (Some ex_polled) []
     = Inr \<lparr>remote_printers = [ex_lab, ex_office_leased], gmainloop = True,
            queues_timer_id = Some 8, timer_sources = [(8, 300)], next_source_id = 9\<rparr>"
  by code_simp

section \<open>Properties of the resolver\<close>

lemma find_first_Some:
  "find_first P xs = Some i \<Longrightarrow> i < length xs \<and> P (xs ! i)"
proof (induction xs arbitrary: i)
  case Nil
  then show ?case by simp
next
  case (Cons x xs)
  then show ?case by (cases "P x") (auto split: if_splits)
qed

lemma find_first_index:
  "i < length xs \<Longrightarrow> P (xs ! i) \<Longrightarrow> \<forall>j<i. \<not> P (xs ! j) \<Longrightarrow> find_first P xs = Some i"
proof (induction xs arbitrary: i)
  case Nil
  then show ?case by simp
next
  case (Cons x xs)
  show ?case
  proof (cases i)
    case 0
    then show ?thesis using Cons.prems by simp
  next
    case (Suc k)
    have "\<not> P x" using Cons.prems(3) Suc by auto
    moreover have "\<forall>j<k. \<not> P (xs ! j)"
    proof (intro allI impI)
      fix j assume "j < k"
      then have "\<not> P ((x # xs) ! Suc j)" using Cons.prems(3) Suc by blast
      then show "\<not> P (xs ! j)" by simp
    qed
    then have "find_first P xs = Some k"
      using Cons.IH[of k] Cons.prems(1,2) Suc by simp
    ultimately show ?thesis using Suc by simp
  qed
qed

text \<open>
  In a registry whose entries differ from one another, a write through the pointer to
  the entry at index \<open>i\<close> changes that entry.
\<close>

lemma at_pointer_exact:
  assumes "distinct reg" "i < length reg"
  shows "at_pointer reg (reg ! i) f = reg[i := f (reg ! i)]"
proof -
  have "\<forall>j<i. reg ! j \<noteq> reg ! i"
    using assms by (auto simp: nth_eq_iff_index_eq)
  then have "find_first (\<lambda>q. q = reg ! i) reg = Some i"
    using find_first_index[of i reg "\<lambda>q. q = reg ! i"] assms(2) by simp
  then show ?thesis by (simp add: at_pointer_def)
qed

lemma fill_empty_keeps:
  "name (fill_empty p rh n ty dmn) = name p \<and> uri (fill_empty p rh n ty dmn) = uri p \<and>
   ppd (fill_empty p rh n ty dmn) = ppd p \<and> model (fill_empty p rh n ty dmn) = model p \<and>
   ifscript (fill_empty p rh n ty dmn) = ifscript p \<and>
   status (fill_empty p rh n ty dmn) = status p \<and>
   timeout (fill_empty p rh n ty dmn) = timeout p \<and>
   duplicate (fill_empty p rh n ty dmn) = duplicate p"
  by (simp add: fill_empty_def Let_def)

lemma update_printer_name:
  "update_printer p now u rh n ty dmn = Inr p1 \<Longrightarrow> name p1 = name p"
  by (auto simp: update_printer_def fill_empty_keeps split: option.splits if_splits)

lemma strcasecmp_eq0: "strcasecmp a b = 0 \<longleftrightarrow> map tolower a = map tolower b"
  by (induction a b rule: strcasecmp.induct) auto

lemma strcasecmp_sym: "strcasecmp a b = 0 \<longleftrightarrow> strcasecmp b a = 0"
  by (auto simp: strcasecmp_eq0)

lemma find_first_None: "find_first P xs = None \<longleftrightarrow> (\<forall>x\<in>set xs. \<not> P x)"
  by (induction xs) auto

lemma set_cupsArrayAdd: "set (cupsArrayAdd reg p) = insert p (set reg)"
  by (induction reg) auto

lemma length_cupsArrayAdd: "length (cupsArrayAdd reg p) = Suc (length reg)"
  by (induction reg) auto

lemma unique_primary_add:
  "unique_primary (cupsArrayAdd reg p) \<longleftrightarrow>
     unique_primary reg \<and>
     (\<forall>q\<in>set reg. strcasecmp (name q) (name p) = 0 \<longrightarrow> duplicate p \<or> duplicate q)"
proof (induction reg)
  case Nil
  show ?case by simp
next
  case (Cons x xs)
  show ?case
  proof (cases "compare_remote_printers p x < 0")
    case True
    then show ?thesis by (auto simp: list_all_iff)
  next
    case False
    then show ?thesis
      using Cons.IH strcasecmp_sym[of "name p" "name x"]
      by (auto simp: list_all_iff set_cupsArrayAdd)
  qed
qed

lemma list_all_keys_cong:
  "map name xs = map name ys \<Longrightarrow> map duplicate xs = map duplicate ys \<Longrightarrow>
   list_all (\<lambda>q. P (name q) (duplicate q)) xs = list_all (\<lambda>q. P (name q) (duplicate q)) ys"
proof (induction xs arbitrary: ys)
  case Nil
  then show ?case by simp
next
  case (Cons x xs)
  then obtain y ys' where "ys = y # ys'" by (cases ys) auto
  with Cons show ?case by auto
qed

lemma unique_primary_cong:
  "map name xs = map name ys \<Longrightarrow> map duplicate xs = map duplicate ys \<Longrightarrow>
   unique_primary xs = unique_primary ys"
proof (induction xs arbitrary: ys)
  case Nil
  then show ?case by simp
next
  case (Cons x xs)
  then obtain y ys' where y: "ys = y # ys'" by (cases ys) auto
  have k: "name x = name y" "duplicate x = duplicate y"
    "map name xs = map name ys'" "map duplicate xs = map duplicate ys'"
    using Cons.prems y by auto
  have "list_all (\<lambda>q. strcasecmp (name q) (name x) = 0 \<longrightarrow> duplicate x \<or> duplicate q) xs
      = list_all (\<lambda>q. strcasecmp (name q) (name x) = 0 \<longrightarrow> duplicate x \<or> duplicate q) ys'"
    using list_all_keys_cong[OF k(3) k(4),
            of "\<lambda>a b. strcasecmp a (name x) = 0 \<longrightarrow> duplicate x \<or> b"] .
  then show ?case using Cons.IH[OF k(3) k(4)] k(1) k(2) y by simp
qed

lemma unique_primary_update:
  assumes "i < length reg" "name p1 = name (reg ! i)" "duplicate p1 = duplicate (reg ! i)"
  shows "unique_primary (reg[i := p1]) = unique_primary reg"
proof (rule unique_primary_cong)
  show "map name (reg[i := p1]) = map name reg"
    using assms(1,2) by (simp add: map_update list_update_same_conv)
  show "map duplicate (reg[i := p1]) = map duplicate reg"
    using assms(1,3) by (simp add: map_update list_update_same_conv)
qed

lemma update_printer_keeps:
  "update_printer p now u rh n ty dmn = Inr p1 \<Longrightarrow> name p1 = name p \<and> duplicate p1 = duplicate p"
  by (auto simp: update_printer_def fill_empty_keeps split: option.splits if_splits)

lemma create_cups_queue_keeps_unique:
  assumes un: "unique_primary reg"
      and lk: "lookup_printer reg n h = None"
  shows "unique_primary (snd (create_local_queue cfg net reg now n u h info ty dmn pdl mm 1))"
proof (cases "find_first (\<lambda>q. strcasecmp (name q) n = 0) reg")
  case None
  then have "\<forall>q\<in>set reg. strcasecmp (name q) n \<noteq> 0" by (simp add: find_first_None)
  then show ?thesis using un None
    by (simp add: create_local_queue_def Let_def unique_primary_add)
next
  case (Some i)
  have i: "i < length reg" "strcasecmp (name (reg ! i)) n = 0"
    using find_first_Some[OF Some] by auto
  have "reg ! i \<in> set reg" using i(1) by simp
  then have "status (reg ! i) \<noteq> STATUS_DISAPPEARED \<and> status (reg ! i) \<noteq> STATUS_UNCONFIRMED"
    using lk i(2) by (auto simp: lookup_printer_def find_first_None)
  then show ?thesis using un Some
    by (simp add: create_local_queue_def Let_def unique_primary_add)
qed

text \<open>What an announcement can do to the registry.\<close>

lemma generate_local_queue_cases:
  assumes cl: "classify resource dmn txt = Inr d"
      and g: "generate_local_queue cfg net lps reg now h port resource n ty dmn txt = Inr (r, reg1)"
  shows "reg1 = reg \<or>
         (\<exists>i p1. i < length reg \<and> reg1 = reg[i := p1] \<and> name p1 = name (reg ! i) \<and>
                 duplicate p1 = duplicate (reg ! i)) \<or>
         (\<exists>rh lqn u. lookup_printer reg lqn rh = None \<and>
                 create_local_queue cfg net reg now lqn u rh n ty dmn (pdl_of d)
                   (Some (remote_queue_of d)) (is_cups_queue_of d) = (r, reg1))"
proof -
  obtain rh where rh: "remote_host_of h = Inr rh"
    using g by (cases "remote_host_of h") (auto simp: generate_local_queue_def bind_err_def Let_def)
  obtain u where u:
    "httpAssembleURI net (if strcasestr ty ''_ipps'' then ''ipps'' else ''ipp'') h port resource = u"
    by blast
  note gdef = generate_local_queue_def bind_err_def Let_def
  show ?thesis
  proof (cases "d = Raw_CUPS_queue")
    case True
    then show ?thesis using g cl rh by (simp add: gdef)
  next
    case False
    note nr = False
    show ?thesis
    proof (cases "local_printer_has_uri lps u")
      case True
      note has = True
      show ?thesis
      proof (cases "local_queue_name_of lps False (remote_queue_of d) rh")
        case None
        then show ?thesis using g cl rh u nr has by (simp add: gdef)
      next
        case (Some lqn)
        then show ?thesis using g cl rh u nr has
          by (cases "lookup_printer reg lqn rh") (auto simp: gdef)
      qed
    next
      case False
      note has = False
      show ?thesis
      proof (cases "local_queue_name_of lps True (remote_queue_of d) rh")
        case None
        then show ?thesis using g cl rh u nr has by (simp add: gdef)
      next
        case (Some lqn)
        note nm = Some
        show ?thesis
        proof (cases "lookup_printer reg lqn rh")
          case None
          then have "create_local_queue cfg net reg now lqn u rh n ty dmn (pdl_of d)
                       (Some (remote_queue_of d)) (is_cups_queue_of d) = (r, reg1)"
            using g cl rh u nr has nm by (simp add: gdef)
          then show ?thesis using None by blast
        next
          case (Some i)
          have i: "i < length reg"
            using find_first_Some Some by (fastforce simp: lookup_printer_def)
          obtain p1 where p1: "update_printer (reg ! i) now u rh n ty dmn = Inr p1"
            "reg1 = reg[i := p1]"
            using g cl rh u nr has nm Some
            by (cases "update_printer (reg ! i) now u rh n ty dmn") (auto simp: gdef)
          then show ?thesis using update_printer_keeps[OF p1(1)] i by blast
        qed
      qed
    qed
  qed
qed

lemma create_cups_queue_result:
  assumes lk: "lookup_printer reg lqn rh = None"
      and c: "create_local_queue cfg net reg now lqn u rh info ty dmn pdl mm 1 = (r, reg1)"
  shows "case r of None \<Rightarrow> False
         | Some p \<Rightarrow> reg1 = cupsArrayAdd reg p \<and>
                     duplicate p = list_ex (\<lambda>q. strcasecmp (name q) (name p) = 0) reg"
proof (cases "find_first (\<lambda>q. strcasecmp (name q) lqn = 0) reg")
  case None
  then have "\<forall>q\<in>set reg. strcasecmp (name q) lqn \<noteq> 0" by (simp add: find_first_None)
  then show ?thesis using c None
    by (auto simp: create_local_queue_def Let_def list_ex_iff)
next
  case (Some i)
  have i: "i < length reg" "strcasecmp (name (reg ! i)) lqn = 0"
    using find_first_Some[OF Some] by auto
  have m: "reg ! i \<in> set reg" using i(1) by simp
  then have "status (reg ! i) \<noteq> STATUS_DISAPPEARED \<and> status (reg ! i) \<noteq> STATUS_UNCONFIRMED"
    using lk i(2) by (auto simp: lookup_printer_def find_first_None)
  then show ?thesis using c Some m i(2)
    by (auto simp: create_local_queue_def Let_def list_ex_iff)
qed

lemma create_ipp_queue_result:
  assumes c: "create_local_queue cfg net reg now lqn u rh info ty dmn pdl mm 0 = (r, reg1)"
  shows "case r of None \<Rightarrow> reg1 = reg
         | Some p \<Rightarrow> reg1 = cupsArrayAdd reg p \<and> \<not> duplicate p"
  using c by (auto simp: create_local_queue_def Let_def split: if_splits option.splits)

text \<open>
  What an announcement does to uniqueness in the registry: at most one entry per name,
  letter case ignored, is not a duplicate. Resolving the announcement of a remote CUPS
  queue keeps the registry unique. When it inserts an entry, the entry is marked as a
  duplicate exactly when the registry already holds an entry of that name; when it
  updates an entry, names and duplicate flags stay. (The other arm of
  \<open>create_local_queue\<close>, which marks the existing entry instead, is not reached from
  \<open>generate_local_queue\<close>: an unconfirmed or disappeared entry of the name is
  updated, not joined by a new one.) An entry inserted for a network printer is never
  marked, whatever the registry holds.
\<close>

lemma announcement_and_uniqueness:
  assumes cl: "classify resource dmn txt = Inr d"
      and g: "generate_local_queue cfg net lps reg now h port resource n ty dmn txt = Inr (r, reg1)"
  shows
    "(is_cups_queue_of d = 1 \<longrightarrow>
        (unique_primary reg \<longrightarrow> unique_primary reg1) \<and>
        (length reg1 \<noteq> length reg \<longrightarrow>
           (case r of None \<Rightarrow> False
            | Some p \<Rightarrow> reg1 = cupsArrayAdd reg p \<and>
                duplicate p = list_ex (\<lambda>q. strcasecmp (name q) (name p) = 0) reg))) \<and>
     (is_cups_queue_of d = 0 \<longrightarrow>
        (length reg1 \<noteq> length reg \<longrightarrow>
           (case r of None \<Rightarrow> False
            | Some p \<Rightarrow> reg1 = cupsArrayAdd reg p \<and> \<not> duplicate p)))"
proof -
  note cases = generate_local_queue_cases[OF cl g]
  have A: "unique_primary reg1" if c1: "is_cups_queue_of d = 1" and un: "unique_primary reg"
  proof -
    from cases show ?thesis
    proof (elim disjE exE conjE)
      assume "reg1 = reg"
      then show ?thesis using un by simp
    next
      fix i p1
      assume "i < length reg" "reg1 = reg[i := p1]" "name p1 = name (reg ! i)"
        "duplicate p1 = duplicate (reg ! i)"
      then show ?thesis using unique_primary_update un by simp
    next
      fix rh lqn u
      assume lk: "lookup_printer reg lqn rh = None"
        and c: "create_local_queue cfg net reg now lqn u rh n ty dmn (pdl_of d)
                   (Some (remote_queue_of d)) (is_cups_queue_of d) = (r, reg1)"
      have "reg1 = snd (create_local_queue cfg net reg now lqn u rh n ty dmn (pdl_of d)
                   (Some (remote_queue_of d)) 1)"
        using c c1 by simp
      then show ?thesis using create_cups_queue_keeps_unique[OF un lk] by simp
    qed
  qed
  have B: "case r of None \<Rightarrow> False
            | Some p \<Rightarrow> reg1 = cupsArrayAdd reg p \<and>
                duplicate p = list_ex (\<lambda>q. strcasecmp (name q) (name p) = 0) reg"
    if c1: "is_cups_queue_of d = 1" and ln: "length reg1 \<noteq> length reg"
  proof -
    from cases show ?thesis
    proof (elim disjE exE conjE)
      assume "reg1 = reg"
      then show ?thesis using ln by simp
    next
      fix i p1
      assume "reg1 = reg[i := p1]"
      then show ?thesis using ln by simp
    next
      fix rh lqn u
      assume lk: "lookup_printer reg lqn rh = None"
        and c: "create_local_queue cfg net reg now lqn u rh n ty dmn (pdl_of d)
                   (Some (remote_queue_of d)) (is_cups_queue_of d) = (r, reg1)"
      show ?thesis using create_cups_queue_result[OF lk] c c1 by simp
    qed
  qed
  have C: "case r of None \<Rightarrow> False | Some p \<Rightarrow> reg1 = cupsArrayAdd reg p \<and> \<not> duplicate p"
    if c0: "is_cups_queue_of d = 0" and ln: "length reg1 \<noteq> length reg"
  proof -
    from cases show ?thesis
    proof (elim disjE exE conjE)
      assume "reg1 = reg"
      then show ?thesis using ln by simp
    next
      fix i p1
      assume "reg1 = reg[i := p1]"
      then show ?thesis using ln by simp
    next
      fix rh lqn u
      assume c: "create_local_queue cfg net reg now lqn u rh n ty dmn (pdl_of d)
                   (Some (remote_queue_of d)) (is_cups_queue_of d) = (r, reg1)"
      have "case r of None \<Rightarrow> reg1 = reg
            | Some p \<Rightarrow> reg1 = cupsArrayAdd reg p \<and> \<not> duplicate p"
        using create_ipp_queue_result c c0 by simp
      then show ?thesis using ln by (cases r) auto
    qed
  qed
  show ?thesis using A B C by blast
qed


text \<open>
  The remote CUPS queue \<open>printer\<close> on the host \<open>srv\<close> is announced while the
  registry holds the entry \<open>printer\<close> of another host: the new entry is a duplicate,
  and the registry stays unique.
\<close>

lemma announcement_and_uniqueness_example:
  "is_cups_queue_of (CUPS_queue ''printer'') = 1 \<and>
   unique_primary [ex_primary] \<and>
   generate_local_queue ex_config ex_network ex_local_dev [ex_primary] 2000 ''srv.local'' 631
     ''printers/printer'' ''printer @ srv'' ''_ipp._tcp'' ''local'' ex_cups_txt
     = Inr (Some ex_backup, [ex_primary, ex_backup]) \<and>
   duplicate ex_backup \<and> unique_primary [ex_primary, ex_backup]"
proof -
  have cl: "classify ''printers/printer'' ''local'' ex_cups_txt = Inr (CUPS_queue ''printer'')"
    by code_simp
  have g: "generate_local_queue ex_config ex_network ex_local_dev [ex_primary] 2000 ''srv.local''
             631 ''printers/printer'' ''printer @ srv'' ''_ipp._tcp'' ''local'' ex_cups_txt
             = Inr (Some ex_backup, [ex_primary, ex_backup])"
    by code_simp
  have c1: "is_cups_queue_of (CUPS_queue ''printer'') = 1" by simp
  have un: "unique_primary [ex_primary]" by simp
  have d: "duplicate ex_backup" by (simp add: ex_backup_def)
  from announcement_and_uniqueness[OF cl g] c1 un
  have "unique_primary [ex_primary, ex_backup]" by blast
  then show ?thesis using c1 un g d by blast
qed

text \<open>
  C1. Uniqueness of the primary entry, which every insertion is to preserve by marking
  the new or the existing entry of the name as a duplicate, is lost when a network
  printer is inserted. Two printers of one model announce themselves from two hosts,
  with driverless provisioning on. The branch of \<open>create_local_queue\<close> for network
  printers sets \<open>duplicate = 0\<close> without the search for an entry of the same name that
  the branch for CUPS queues makes: the registry then holds two entries of the name
  \<open>HP-LaserJet-400\<close>, neither a duplicate, and the next pass sends two
  create-or-modify requests for that one queue, with the two device URIs. The same
  collision between a registered printer and a remote CUPS queue is resolved as the
  claim says: the new entry is the duplicate.
\<close>

theorem two_primaries_for_one_name:
  "generate_local_queue ex_config ex_network [] [] 1000 ''lj-one.local'' 631 ''ipp/print''
     ''LaserJet one'' ''_ipp._tcp'' ''local'' ex_txt = Inr (Some ex_first, [ex_first]) \<and>
   unique_primary [ex_first] \<and>
   generate_local_queue ex_config ex_network [] [ex_first] 1001 ''lj-two.local'' 631 ''ipp/print''
     ''LaserJet two'' ''_ipp._tcp'' ''local'' ex_txt = Inr (Some ex_second, [ex_first, ex_second]) \<and>
   strcasecmp (name ex_first) (name ex_second) = 0 \<and>
   \<not> duplicate ex_first \<and> \<not> duplicate ex_second \<and>
   \<not> unique_primary [ex_first, ex_second] \<and>
   calls (snd (scan_printers ex_config 1002 1002 [ex_first, ex_second] ex_spooler))
     = [Add_Modify_Printer ''HP-LaserJet-400'' ''ipp://lj-one.local:631/ipp/print''
          (Some ''/tmp/ipp.ppd''),
        Add_Modify_Printer ''HP-LaserJet-400'' ''ipp://lj-two.local:631/ipp/print''
          (Some ''/tmp/ipp.ppd'')] \<and>
   unique_primary [ex_primary] \<and>
   generate_local_queue ex_config ex_network ex_local_dev [ex_primary] 2000 ''srv.local'' 631
     ''printers/printer'' ''printer @ srv'' ''_ipp._tcp'' ''local'' ex_cups_txt
     = Inr (Some ex_backup, [ex_primary, ex_backup]) \<and>
   duplicate ex_backup \<and> unique_primary [ex_primary, ex_backup]"
  by code_simp

text \<open>
  C2. The entry \<open>ex_primary\<close> is a network printer with a generated PPD; the remote
  CUPS queue \<open>printer\<close> on the host \<open>srv\<close> is announced and becomes its duplicate
  \<open>ex_backup\<close>, which has no PPD. When the service of \<open>ex_primary\<close> is withdrawn, the
  URI, host and identity of \<open>ex_backup\<close> are copied and both entries are scheduled as
  the claim says, but the \<open>ppd\<close> pointer of the withdrawn entry is freed and not
  replaced: the entry keeps it, and the next pass hands the freed file name to the
  spooler.
\<close>

theorem failover_keeps_freed_ppd:
  "generate_local_queue ex_config ex_network ex_local_dev [ex_primary] 2000 ''srv.local'' 631
     ''printers/printer'' ''printer @ srv'' ''_ipp._tcp'' ''local'' ex_cups_txt
     = Inr (Some ex_backup, [ex_primary, ex_backup]) \<and>
   browse_callback_remove [ex_primary, ex_backup] 2100 False ''Device'' ''_ipp._tcp'' ''local''
     = [ex_promoted, ex_backup\<lparr>status := STATUS_DISAPPEARED, timeout := 2099\<rparr>] \<and>
   browse_callback_remove [ex_primary] 2100 False ''Device'' ''_ipp._tcp'' ''local''
     = [ex_primary\<lparr>status := STATUS_DISAPPEARED, timeout := 2100 + TIMEOUT_REMOVE\<rparr>] \<and>
   uri ex_promoted = uri ex_backup \<and> host ex_promoted = host ex_backup \<and>
   ppd ex_backup = None \<and> ppd ex_promoted = Some ''/tmp/ipp.ppd'' \<and>
   calls (snd (scan_printers ex_config 2100 2100
                 [ex_promoted, ex_backup\<lparr>status := STATUS_DISAPPEARED, timeout := 2099\<rparr>]
                 ex_spooler))
     = [Add_Modify_Printer ''printer'' ''ipp://srv.local:631/printers/printer''
          (Some ''/tmp/ipp.ppd'')]"
  by code_simp

text \<open>
  An announcement that matches the entry \<open>p\<close> at index \<open>i\<close>, with the same URI after
  the scheme and no upgrade to IPPS, never changes the entry's name, URI, provisioning
  fields and duplicate flag. When no local queue has the announced URI, an entry in
  \<open>STATUS_UNCONFIRMED\<close> or \<open>STATUS_DISAPPEARED\<close> becomes \<open>STATUS_CONFIRMED\<close> with the
  deadline Never, any other status and deadline stay, and empty identity fields are
  filled in. When a local queue has the announced URI, the function returns before
  that code and the entry is left as it is.
\<close>

lemma matching_announcement:
  assumes u: "u = httpAssembleURI net (if strcasestr ty ''_ipps'' then ''ipps'' else ''ipp'')
                    h port resource"
      and rh: "remote_host_of h = Inr remote_host"
      and cl: "classify resource dmn txt = Inr d" and nraw: "d \<noteq> Raw_CUPS_queue"
      and lq: "local_queue_name_of lps (\<not> local_printer_has_uri lps u) (remote_queue_of d)
                 remote_host = Some local_queue_name"
      and lk: "lookup_printer reg local_queue_name remote_host = Some i"
      and p: "p = reg ! i"
      and same: "strchr (uri p) (CHR '':'') = Some a" "strchr u (CHR '':'') = Some b"
                "strcasecmp a b = 0"
      and noup: "\<not> (strcasestr ty ''_ipps'' \<and> strncasecmp (uri p) ''ipp:'' 4 = 0)"
      and p1: "p1 = (if local_printer_has_uri lps u then p
                     else fill_empty
                            (if status p = STATUS_UNCONFIRMED \<or> status p = STATUS_DISAPPEARED
                             then p\<lparr>status := STATUS_CONFIRMED, timeout := -1\<rparr> else p)
                            remote_host n ty dmn)"
  shows
    "generate_local_queue cfg net lps reg now h port resource n ty dmn txt
       = Inr (Some p1, reg[i := p1]) \<and>
     name p1 = name p \<and> uri p1 = uri p \<and> ppd p1 = ppd p \<and> model p1 = model p \<and>
     ifscript p1 = ifscript p \<and> duplicate p1 = duplicate p \<and>
     (local_printer_has_uri lps u \<longrightarrow> p1 = p) \<and>
     (\<not> local_printer_has_uri lps u \<longrightarrow>
        (status p = STATUS_UNCONFIRMED \<or> status p = STATUS_DISAPPEARED \<longrightarrow>
           status p1 = STATUS_CONFIRMED \<and> timeout p1 = -1) \<and>
        (status p \<noteq> STATUS_UNCONFIRMED \<and> status p \<noteq> STATUS_DISAPPEARED \<longrightarrow>
           status p1 = status p \<and> timeout p1 = timeout p))"
proof -
  have up: "update_printer p now u remote_host n ty dmn =
       Inr (fill_empty
              (if status p = STATUS_UNCONFIRMED \<or> status p = STATUS_DISAPPEARED
               then p\<lparr>status := STATUS_CONFIRMED, timeout := -1\<rparr> else p)
              remote_host n ty dmn)"
    using same noup by (auto simp: update_printer_def)
  have g: "generate_local_queue cfg net lps reg now h port resource n ty dmn txt
       = Inr (Some p1, reg[i := p1])"
  proof (cases "local_printer_has_uri lps u")
    case True
    then show ?thesis
      using u rh cl nraw lq lk p p1
      by (simp add: generate_local_queue_def bind_err_def Let_def)
  next
    case False
    then show ?thesis
      using u rh cl nraw lq lk p p1 up
      by (simp add: generate_local_queue_def bind_err_def Let_def)
  qed
  have k: "name p1 = name p \<and> uri p1 = uri p \<and> ppd p1 = ppd p \<and> model p1 = model p \<and>
     ifscript p1 = ifscript p \<and> duplicate p1 = duplicate p"
    using p1 by (simp add: fill_empty_keeps)
  have s: "\<not> local_printer_has_uri lps u \<longrightarrow>
        (status p = STATUS_UNCONFIRMED \<or> status p = STATUS_DISAPPEARED \<longrightarrow>
           status p1 = STATUS_CONFIRMED \<and> timeout p1 = -1) \<and>
        (status p \<noteq> STATUS_UNCONFIRMED \<and> status p \<noteq> STATUS_DISAPPEARED \<longrightarrow>
           status p1 = status p \<and> timeout p1 = timeout p)"
    using p1 by (auto simp: fill_empty_keeps)
  have e: "local_printer_has_uri lps u \<longrightarrow> p1 = p" using p1 by simp
  show ?thesis using g k s e by blast
qed

text \<open>
  The unconfirmed entry \<open>Office\<close>, announced again by its host with the same URI while
  no local queue has that URI: it becomes confirmed with the deadline Never, and its
  empty identity fields are filled in.
\<close>

lemma matching_announcement_example:
  "status ex_office = STATUS_UNCONFIRMED \<and>
   \<not> local_printer_has_uri [] ''ipp://srv.local:631/printers/Office'' \<and>
   generate_local_queue ex_config ex_network [] [ex_office] 1000 ''srv.local'' 631
     ''printers/Office'' ''Office at srv'' ''_ipp._tcp'' ''local'' ex_cups_txt
     = Inr (Some ex_office_confirmed, [ex_office_confirmed]) \<and>
   uri ex_office_confirmed = uri ex_office"
proof -
  let ?u = "''ipp://srv.local:631/printers/Office''"
  have h1: "?u = httpAssembleURI ex_network
                   (if strcasestr ''_ipp._tcp'' ''_ipps'' then ''ipps'' else ''ipp'')
                   ''srv.local'' 631 ''printers/Office''"
    by code_simp
  have h2: "remote_host_of ''srv.local'' = Inr ''srv''" by code_simp
  have h3: "classify ''printers/Office'' ''local'' ex_cups_txt = Inr (CUPS_queue ''Office'')"
    by code_simp
  have h4: "CUPS_queue ''Office'' \<noteq> Raw_CUPS_queue" by simp
  have h5: "local_queue_name_of [] (\<not> local_printer_has_uri [] ?u)
              (remote_queue_of (CUPS_queue ''Office'')) ''srv'' = Some ''Office''"
    by code_simp
  have h6: "lookup_printer [ex_office] ''Office'' ''srv'' = Some 0" by code_simp
  have h7: "ex_office = [ex_office] ! 0" by simp
  have h8: "strchr (uri ex_office) (CHR '':'') = Some ''://srv.local:631/printers/Office''"
    by code_simp
  have h9: "strchr ?u (CHR '':'') = Some ''://srv.local:631/printers/Office''" by code_simp
  have h10: "strcasecmp ''://srv.local:631/printers/Office''
               ''://srv.local:631/printers/Office'' = 0"
    by code_simp
  have h11: "\<not> (strcasestr ''_ipp._tcp'' ''_ipps'' \<and> strncasecmp (uri ex_office) ''ipp:'' 4 = 0)"
    by code_simp
  have nl: "\<not> local_printer_has_uri [] ?u" by code_simp
  have st: "status ex_office = STATUS_UNCONFIRMED" by (simp add: ex_office_def)
  have e: "fill_empty (ex_office\<lparr>status := STATUS_CONFIRMED, timeout := -1\<rparr>)
             ''srv'' ''Office at srv'' ''_ipp._tcp'' ''local'' = ex_office_confirmed"
    by code_simp
  have uu: "uri ex_office_confirmed = uri ex_office" by code_simp
  from matching_announcement[where n = "''Office at srv''" and cfg = ex_config
         and now = 1000, OF h1 h2 h3 h4 h5 h6 h7 h8 h9 h10 h11 refl] nl st e
  have "generate_local_queue ex_config ex_network [] [ex_office] 1000 ''srv.local'' 631
     ''printers/Office'' ''Office at srv'' ''_ipp._tcp'' ''local'' ex_cups_txt
     = Inr (Some ex_office_confirmed, [ex_office_confirmed])"
    by simp
  then show ?thesis using st nl uu by simp
qed

text \<open>
  C6. A printer that is announced again with an unchanged URI is to become confirmed,
  with the deadline Never, when its entry is unconfirmed. At startup
  \<open>find_previous_queue\<close> makes the entry \<open>Office\<close> for the queue of an earlier session,
  unconfirmed and due at 1010 (\<open>if no Avahi report of this queue appears in a certain
  time frame, we will remove the queue\<close>). At 1005 the DNS-SD resolver reports the
  printer, with the URI the queue has. Because a local queue has that URI,
  \<open>generate_local_queue\<close> returns at \<open>if (!create)\<close>, before the code that is to
  \<open>mark queue entry as confirmed if the entry is unconfirmed\<close>: the entry stays
  unconfirmed and due at 1010, and the pass at 1010 (\<open>Queue not reported again by
  Bonjour, remove it\<close>) deletes the queue of a printer that was reported. The same
  report with no such local queue confirms the entry, and the same announcement by
  the legacy protocol renews the entry's lease.
\<close>

theorem reannounced_queue_removed:
  "find_previous_queues ex_config ex_network False 1000 [] ex_local_office = Some [ex_office] \<and>
   status ex_office = STATUS_UNCONFIRMED \<and> timeout ex_office = 1010 \<and>
   httpAssembleURI ex_network ''ipp'' ''srv.local'' 631 ''printers/Office'' = uri ex_office \<and>
   lookup_printer [ex_office] ''Office'' ''srv'' = Some 0 \<and>
   generate_local_queue ex_config ex_network ex_local_office [ex_office] 1005 ''srv.local'' 631
     ''printers/Office'' ''Office at srv'' ''_ipp._tcp'' ''local'' ex_cups_txt
     = Inr (Some ex_office, [ex_office]) \<and>
   queues ex_spooler_office = [''Office''] \<and>
   fst (scan_printers ex_config 1010 1010 [ex_office] ex_spooler_office) = [] \<and>
   calls (snd (scan_printers ex_config 1010 1010 [ex_office] ex_spooler_office))
     = [Get_Jobs ''Office'', Get_Default, Delete_Printer ''Office''] \<and>
   queues (snd (scan_printers ex_config 1010 1010 [ex_office] ex_spooler_office)) = [] \<and>
   generate_local_queue ex_config ex_network [] [ex_office] 1005 ''srv.local'' 631
     ''printers/Office'' ''Office at srv'' ''_ipp._tcp'' ''local'' ex_cups_txt
     = Inr (Some ex_office_confirmed, [ex_office_confirmed]) \<and>
   status ex_office_confirmed = STATUS_CONFIRMED \<and> timeout ex_office_confirmed = -1 \<and>
   found_cups_printer ex_config ex_network ex_local_office [] [ex_office] 1005 1005
     ''srv.local'' 631 ''/printers/Office'' None = Inr [ex_office_leased] \<and>
   status ex_office_leased = STATUS_DISAPPEARED \<and> timeout ex_office_leased = 1305"
  by code_simp

lemma create_local_queue_rejects:
  "CreateIPPPrinterQueues cfg = 0 \<or> pdl_unknown pdl \<Longrightarrow>
   create_local_queue cfg net reg now n u h info ty dmn pdl make_model 0 = (None, reg)"
  by (auto simp: create_local_queue_def Let_def)

text \<open>
  The policy for network printers is tested in \<open>create_local_queue\<close>, that is, when
  an entry is about to be created. For the announcement of a network printer with
  driverless provisioning off or with no known PDL: whatever the function returns, the
  registry has the same entries by name afterwards, so no entry is created; and when
  no entry of the registry matches the announcement, the event is discarded and the
  registry is unchanged.
\<close>

lemma policy_on_creation:
  assumes u: "u = httpAssembleURI net (if strcasestr ty ''_ipps'' then ''ipps'' else ''ipp'')
                    h port resource"
      and rh: "remote_host_of h = Inr remote_host"
      and cl: "classify resource dmn txt = Inr (IPP_printer remote_queue pdl)"
      and policy: "CreateIPPPrinterQueues cfg = 0 \<or> pdl_unknown pdl"
  shows
    "(\<forall>r reg1. generate_local_queue cfg net lps reg now h port resource n ty dmn txt
                 = Inr (r, reg1) \<longrightarrow> map name reg1 = map name reg) \<and>
     ((case local_queue_name_of lps (\<not> local_printer_has_uri lps u) remote_queue remote_host of
         None \<Rightarrow> True
       | Some local_queue_name \<Rightarrow> lookup_printer reg local_queue_name remote_host = None) \<longrightarrow>
      generate_local_queue cfg net lps reg now h port resource n ty dmn txt = Inr (None, reg))"
proof -
  have names: "map name (reg[i := p1]) = map name reg"
    if "lookup_printer reg lqn remote_host = Some i"
       "update_printer (reg ! i) now u remote_host n ty dmn = Inr p1" for i p1 lqn
  proof -
    have "i < length reg" using that(1) find_first_Some by (fastforce simp: lookup_printer_def)
    moreover have "name p1 = name (reg ! i)" using update_printer_name[OF that(2)] .
    ultimately show ?thesis by (simp add: map_update list_update_same_conv)
  qed
  have 1: "\<forall>r reg1. generate_local_queue cfg net lps reg now h port resource n ty dmn txt
                 = Inr (r, reg1) \<longrightarrow> map name reg1 = map name reg"
    using u rh cl policy names
    by (auto simp: generate_local_queue_def bind_err_def Let_def create_local_queue_rejects
          split: option.splits sum.splits if_splits)
  have 2: "(case local_queue_name_of lps (\<not> local_printer_has_uri lps u) remote_queue remote_host of
         None \<Rightarrow> True
       | Some local_queue_name \<Rightarrow> lookup_printer reg local_queue_name remote_host = None) \<longrightarrow>
      generate_local_queue cfg net lps reg now h port resource n ty dmn txt = Inr (None, reg)"
    using u rh cl policy
    by (auto simp: generate_local_queue_def bind_err_def Let_def create_local_queue_rejects
          split: option.splits)
  show ?thesis using 1 2 by blast
qed

text \<open>
  A network printer that advertises only \<open>application/octet-stream\<close>, announced with
  driverless provisioning on, while the registry holds an entry of another name: the
  event is discarded and the registry stays as it was.
\<close>

lemma policy_on_creation_example:
  "CreateIPPPrinterQueues ex_config = 1 \<and>
   classify ''ipp/print'' ''local'' ex_unknown_txt
     = Inr (IPP_printer ''printer'' (Some ''application/octet-stream'')) \<and>
   pdl_unknown (Some ''application/octet-stream'') \<and>
   generate_local_queue ex_config ex_network [] [ex_first] 1000 ''new.local'' 631 ''ipp/print''
     ''New'' ''_ipp._tcp'' ''local'' ex_unknown_txt = Inr (None, [ex_first])"
proof -
  let ?u = "''ipp://new.local:631/ipp/print''"
  have h1: "?u = httpAssembleURI ex_network
                   (if strcasestr ''_ipp._tcp'' ''_ipps'' then ''ipps'' else ''ipp'')
                   ''new.local'' 631 ''ipp/print''"
    by code_simp
  have h2: "remote_host_of ''new.local'' = Inr ''new''" by code_simp
  have h3: "classify ''ipp/print'' ''local'' ex_unknown_txt
              = Inr (IPP_printer ''printer'' (Some ''application/octet-stream''))"
    by code_simp
  have pu: "pdl_unknown (Some ''application/octet-stream'')" by code_simp
  then have h4: "CreateIPPPrinterQueues ex_config = 0 \<or>
                 pdl_unknown (Some ''application/octet-stream'')"
    by simp
  have on: "CreateIPPPrinterQueues ex_config = 1" by (simp add: ex_config_def)
  have nm: "local_queue_name_of [] (\<not> local_printer_has_uri [] ?u) ''printer'' ''new''
              = Some ''printer''"
    by code_simp
  have lk: "lookup_printer [ex_first] ''printer'' ''new'' = None" by code_simp
  from policy_on_creation[where lps = "[]" and reg = "[ex_first]" and now = 1000
         and n = "''New''", OF h1 h2 h3 h4] nm lk
  have "generate_local_queue ex_config ex_network [] [ex_first] 1000 ''new.local'' 631
          ''ipp/print'' ''New'' ''_ipp._tcp'' ''local'' ex_unknown_txt = Inr (None, [ex_first])"
    by simp
  then show ?thesis using on h3 pu by simp
qed

text \<open>
  C9. A network printer announced with driverless provisioning off, or with no known
  PDL, is to be discarded: no entry, no local queue, the registry unchanged.
  \<open>create_local_queue\<close> does so (\<open>ignoring this printer\<close>), and the announcement of
  the printer on the host \<open>new\<close> is discarded while the registry is empty. But
  \<open>generate_local_queue\<close> looks for a matching entry first, and its branch for an
  entry that is found has no such test. The registry holds the unconfirmed entry
  \<open>printer\<close> that \<open>find_previous_queue\<close> made for the queue of an earlier session,
  which points to the host \<open>old\<close>: the announcement matches it by name, the entry
  takes the URI of the printer that the policy rejects and is scheduled, and the next
  pass sends the create-or-modify request that points the queue to it. The outcome is
  the same with provisioning on and a PDL list that names no known language.
\<close>

theorem policy_bypassed_by_update:
  "CreateIPPPrinterQueues ex_config_off = 0 \<and>
   classify ''ipp/print'' ''local'' (Some []) = Inr (IPP_printer ''printer'' None) \<and>
   generate_local_queue ex_config_off ex_network [] [] 1000 ''new.local'' 631
     ''ipp/print'' ''New'' ''_ipp._tcp'' ''local'' (Some []) = Inr (None, []) \<and>
   find_previous_queues ex_config_off ex_network False 1000 [] ex_local_old = Some [ex_old] \<and>
   generate_local_queue ex_config_off ex_network ex_local_old [ex_old] 1000 ''new.local'' 631
     ''ipp/print'' ''New'' ''_ipp._tcp'' ''local'' (Some [])
     = Inr (Some ex_old_changed, [ex_old_changed]) \<and>
   uri ex_old = ''ipp://old.local:631/ipp/print'' \<and>
   uri ex_old_changed = ''ipp://new.local:631/ipp/print'' \<and>
   status ex_old_changed = STATUS_TO_BE_CREATED \<and>
   calls (snd (scan_printers ex_config_off 1000 1000 [ex_old_changed] ex_spooler))
     = [Add_Modify_Printer ''printer'' ''ipp://new.local:631/ipp/print'' None] \<and>
   CreateIPPPrinterQueues ex_config = 1 \<and>
   classify ''ipp/print'' ''local'' ex_unknown_txt
     = Inr (IPP_printer ''printer'' (Some ''application/octet-stream'')) \<and>
   pdl_unknown (Some ''application/octet-stream'') \<and>
   generate_local_queue ex_config ex_network [] [] 1000 ''new.local'' 631
     ''ipp/print'' ''New'' ''_ipp._tcp'' ''local'' ex_unknown_txt = Inr (None, []) \<and>
   generate_local_queue ex_config ex_network ex_local_old [ex_old] 1000 ''new.local'' 631
     ''ipp/print'' ''New'' ''_ipp._tcp'' ''local'' ex_unknown_txt
     = Inr (Some ex_old_changed, [ex_old_changed])"
  by code_simp

end
